theory Spec2Isabelle
  imports Main "HOL-Library.List_Lexorder"
begin

section \<open>Python strings\<close>

text \<open>
  A Python \<^verbatim>\<open>str\<close> is a sequence of Unicode code points. HOL's \<open>char\<close> has only 256
  values, so a string is modelled as the list of its code points, each a natural number;
  \<open>length\<close> then counts what Python's \<^verbatim>\<open>len\<close> counts. \<open>str\<close> writes a literal of the
  source. The order on strings is Python's: lexicographic by code point, a proper prefix
  first (the order of \<open>HOL-Library.List_Lexorder\<close>).
\<close>

type_synonym pystr = "nat list"

definition str :: "string \<Rightarrow> pystr" where
  "str s = map of_char s"

text \<open>
  \<^verbatim>\<open>str.isspace\<close> for one code point, the test used by \<^verbatim>\<open>str.strip()\<close> without
  arguments: the code points CPython lists as whitespace.
\<close>

definition isspace :: "nat \<Rightarrow> bool" where
  "isspace c \<longleftrightarrow>
     (9 \<le> c \<and> c \<le> 13) \<or> (28 \<le> c \<and> c \<le> 32) \<or> c = 133 \<or> c = 160 \<or> c = 5760 \<or>
     (8192 \<le> c \<and> c \<le> 8202) \<or> c = 8232 \<or> c = 8233 \<or> c = 8239 \<or> c = 8287 \<or> c = 12288"

text \<open>\<^verbatim>\<open>s.strip()\<close>: drop the whitespace at both ends.\<close>

definition strip :: "pystr \<Rightarrow> pystr" where
  "strip s = rev (dropWhile isspace (rev (dropWhile isspace s)))"

text \<open>\<^verbatim>\<open>sep.join(xs)\<close>.\<close>

fun join :: "pystr \<Rightarrow> pystr list \<Rightarrow> pystr" where
  "join sep [] = []"
| "join sep [x] = x"
| "join sep (x # y # ys) = x @ sep @ join sep (y # ys)"

text \<open>
  \<^verbatim>\<open>s.split(c)\<close> for a separator of one code point: every occurrence of the separator
  ends a piece, so the result has one more piece than \<open>s\<close> has separators, and
  \<^verbatim>\<open>"".split(",")\<close> is \<^verbatim>\<open>[""]\<close>.
\<close>

fun split :: "nat \<Rightarrow> pystr \<Rightarrow> pystr list" where
  "split c [] = [[]]"
| "split c (x # xs) =
     (if x = c then [] # split c xs
      else (case split c xs of w # ws \<Rightarrow> (x # w) # ws | [] \<Rightarrow> [[x]]))"

text \<open>\<^verbatim>\<open>sorted(xs)\<close> on a list of strings.\<close>

definition sorted_py :: "pystr list \<Rightarrow> pystr list" where
  "sorted_py xs = sort xs"

section \<open>JSON values and exceptions\<close>

text \<open>
  A decoded JSON value, as \<^verbatim>\<open>response.json()\<close> returns it and \<^verbatim>\<open>dumps\<close> takes it. Numbers
  are the whole numbers (identifiers, counts, error codes and timestamps of whole
  seconds). An object keeps its members in order; on a repeated key the decoder keeps
  the last value.
\<close>

datatype json =
    JNull
  | JBool bool
  | JNum int
  | JStr pystr
  | JList "json list"
  | JObj "(pystr \<times> json) list"

text \<open>
  The exceptions of the model. \<open>ToodledoError\<close> carries the two arguments the source
  passes to \<^verbatim>\<open>Exception.__init__\<close>: the message and the error code. \<open>NameError\<close> carries
  the name that is not bound, \<open>ValidationError\<close> its message. \<open>ValueError\<close> is what the
  \<^verbatim>\<open>datetime\<close> module raises for a year outside 1 to 9999.
\<close>

datatype error =
    HTTPError nat
  | JSONDecodeError
  | ToodledoError pystr json
  | NameError string
  | TypeError
  | KeyError
  | AttributeError string
  | TokenMissingError
  | ConnectionError
  | ValidationError pystr
  | ValueError

section \<open>Field codecs\<close>

subsection \<open>ToodledoTags\<close>

text \<open>
  \<^verbatim>\<open>
  def _serialize(self, value, attr, obj):
      assert isinstance(value, list)
      return ", ".join(sorted(value))

  def _deserialize(self, value, attr, obj):
      assert isinstance(value, str)
      if value == "":
          return []
      return [x.strip() for x in value.split(",")]
  \<close>
  The two assertions hold by the types of the model: the in-memory value is a list of
  strings, the wire value a string.
\<close>

definition ToodledoTags_serialize :: "pystr list \<Rightarrow> pystr" where
  "ToodledoTags_serialize v = join (str '', '') (sorted_py v)"

definition ToodledoTags_deserialize :: "pystr \<Rightarrow> pystr list" where
  "ToodledoTags_deserialize v = (if v = [] then [] else map strip (split 44 v))"

subsection \<open>Dates, datetimes and the local time zone\<close>

text \<open>
  The values of the standard library's \<^verbatim>\<open>datetime\<close> module are modelled by the numbers
  the library computes with:
  \<^item> a \<^verbatim>\<open>date\<close> by its day number, the days from 1970-01-01 to it (so \<open>Date 0\<close> is
    1970-01-01 and \<open>Date 18262\<close> is 2020-01-01); the library's bijection between
    (year, month, day) and day numbers is not part of the model;
  \<^item> a naive \<^verbatim>\<open>datetime\<close> by its wall-clock seconds, the seconds from 1970-01-01T00:00:00
    to it on the same clock, whole seconds only (their timestamps are exact floats, so
    the float the library returns is modelled by the integer it equals);
  \<^item> the process's local time zone by its offset \<open>tz\<close> from UTC in seconds, positive
    east of Greenwich, the same at every instant (no daylight saving change).
  The library knows the years 1 to 9999: its first day, 0001-01-01, has the day number
  \<open>date_min_day\<close> and its last, 9999-12-31, the day number \<open>date_max_day\<close>. A wall clock is
  in range when it lies in these years.
\<close>

datatype date = Date (daynum: int)

datatype datetime = Datetime (wallclock: int)

definition date_min_day :: int where
  "date_min_day = - 719162"

definition date_max_day :: int where
  "date_max_day = 2932896"

definition wall_in_range :: "int \<Rightarrow> bool" where
  "wall_in_range w \<longleftrightarrow> 86400 * date_min_day \<le> w \<and> w < 86400 * (date_max_day + 1)"

text \<open>
  \<^verbatim>\<open>datetime(year=y, month=m, day=d)\<close> for the year, month and day of a date: hour, minute
  and second default to 0, so it is the midnight that starts the day.
\<close>

definition datetime_of_date :: "date \<Rightarrow> datetime" where
  "datetime_of_date d = Datetime (86400 * daynum d)"

text \<open>
  The library's \<^verbatim>\<open>local(u)\<close>: the local wall clock of the instant \<open>u\<close>, or ValueError
  (``year 0 is out of range'', ``year 10000 is out of range'') when that wall clock is
  not in range.
\<close>

definition local_seconds :: "int \<Rightarrow> int \<Rightarrow> error + int" where
  "local_seconds tz u = (if wall_in_range (u + tz) then Inr (u + tz) else Inl ValueError)"

text \<open>
  \<^verbatim>\<open>dt.timestamp()\<close> of a naive datetime reads it as local time. The library (Python 3.6
  and later) solves \<open>t = local u\<close> for \<open>u\<close>: it takes the offset \<open>a\<close> found at \<open>t\<close>, checks the
  candidate \<open>u1 = t - a\<close>, and probes the instant one day before \<open>u1\<close> for a second
  offset; each of the three steps calls \<^verbatim>\<open>local\<close> and can raise. With one offset at every
  instant the second offset equals the first and the result is \<open>u1\<close>.
\<close>

definition timestamp :: "int \<Rightarrow> datetime \<Rightarrow> error + int" where
  "timestamp tz dt =
     (let t = wallclock dt in
      case local_seconds tz t of
        Inl e \<Rightarrow> Inl e
      | Inr lt \<Rightarrow>
          (let a = lt - t; u1 = t - a in
           case local_seconds tz u1 of
             Inl e \<Rightarrow> Inl e
           | Inr t1 \<Rightarrow>
               (let u2 = u1 - 86400 in
                case local_seconds tz u2 of
                  Inl e \<Rightarrow> Inl e
                | Inr lt2 \<Rightarrow> Inr u1)))"

text \<open>
  \<^verbatim>\<open>datetime.fromtimestamp(v)\<close> gives the local wall clock of the instant \<open>v\<close>; it also
  probes the instant one day before. \<^verbatim>\<open>date.fromtimestamp(v)\<close> gives the local calendar
  day of \<open>v\<close>. Both raise ValueError outside the years 1 to 9999.
\<close>

definition datetime_fromtimestamp :: "int \<Rightarrow> int \<Rightarrow> error + datetime" where
  "datetime_fromtimestamp tz v =
     (case local_seconds tz v of
        Inl e \<Rightarrow> Inl e
      | Inr w \<Rightarrow>
          (case local_seconds tz (v - 86400) of
             Inl e \<Rightarrow> Inl e
           | Inr p \<Rightarrow> Inr (Datetime w)))"

definition date_fromtimestamp :: "int \<Rightarrow> int \<Rightarrow> error + date" where
  "date_fromtimestamp tz v =
     (let day = (v + tz) div 86400 in
      if date_min_day \<le> day \<and> day \<le> date_max_day then Inr (Date day) else Inl ValueError)"

subsection \<open>ToodledoDate\<close>

text \<open>
  \<^verbatim>\<open>
  # states for this field are:
  # a GMT timestamp with the time set to noon
  # unset, represented by API as 0
  class ToodledoDate(fields.Field):
      def _serialize(self, value, attr, obj):
          if value is None:
              return 0
          return datetime(year=value.year, month=value.month, day=value.day).timestamp()

      def _deserialize(self, value, attr, obj):
          if value == 0:
              return None
          return date.fromtimestamp(float(value))
  \<close>
  The in-memory value is \<open>None\<close> or a date. The wire value is a number of whole seconds
  (a wire value that is no number makes \<^verbatim>\<open>float(value)\<close> raise; the type of the model
  leaves such values out). Both directions return a value or raise.
\<close>

definition ToodledoDate_serialize :: "int \<Rightarrow> date option \<Rightarrow> error + int" where
  "ToodledoDate_serialize tz v =
     (case v of None \<Rightarrow> Inr 0 | Some d \<Rightarrow> timestamp tz (datetime_of_date d))"

definition ToodledoDate_deserialize :: "int \<Rightarrow> int \<Rightarrow> error + date option" where
  "ToodledoDate_deserialize tz v =
     (if v = 0 then Inr None
      else case date_fromtimestamp tz v of Inl e \<Rightarrow> Inl e | Inr d \<Rightarrow> Inr (Some d))"

text \<open>
  What the source's comment, and the specification, say the wire value of a date is:
  the epoch seconds of noon of that day, on the GMT clock. \<open>noon_local\<close> is the other
  reading, noon of that day on the local clock.
\<close>

definition noon_GMT :: "date \<Rightarrow> int" where
  "noon_GMT d = 86400 * daynum d + 43200"

definition noon_local :: "int \<Rightarrow> date \<Rightarrow> int" where
  "noon_local tz d = 86400 * daynum d + 43200 - tz"

text \<open>
  The dates whose midnight \<^verbatim>\<open>timestamp()\<close> accepts in the zone \<open>tz\<close>: the three wall clocks
  the library looks at are in range.
\<close>

definition date_encodable :: "int \<Rightarrow> date \<Rightarrow> bool" where
  "date_encodable tz d \<longleftrightarrow>
     wall_in_range (86400 * daynum d + tz) \<and> wall_in_range (86400 * daynum d) \<and>
     wall_in_range (86400 * daynum d - 86400)"

subsection \<open>ToodledoDatetime\<close>

text \<open>
  \<^verbatim>\<open>
  class ToodledoDatetime(fields.Field):
      def _serialize(self, value, attr, obj):
          if value is None:
              return 0
          return value.timestamp()

      def _deserialize(self, value, attr, obj):
          if value == 0:
              return None
          return datetime.fromtimestamp(float(value))
  \<close>
\<close>

definition ToodledoDatetime_serialize :: "int \<Rightarrow> datetime option \<Rightarrow> error + int" where
  "ToodledoDatetime_serialize tz v =
     (case v of None \<Rightarrow> Inr 0 | Some dt \<Rightarrow> timestamp tz dt)"

definition ToodledoDatetime_deserialize :: "int \<Rightarrow> int \<Rightarrow> error + datetime option" where
  "ToodledoDatetime_deserialize tz v =
     (if v = 0 then Inr None
      else case datetime_fromtimestamp tz v of Inl e \<Rightarrow> Inl e | Inr dt \<Rightarrow> Inr (Some dt))"

section \<open>Requests and the session\<close>

text \<open>
  The value of a request parameter: a Python value, or the text \<^verbatim>\<open>dumps(v)\<close>, kept as
  the value it writes.
\<close>

datatype pval = Val json | Dumps json

datatype verb = GET | POST

record request =
  verb :: verb
  url :: pystr
  params :: "pystr \<rightharpoonup> pval"

text \<open>
  What one call of \<^verbatim>\<open>session.get\<close> or \<^verbatim>\<open>session.post\<close> does: it raises, or it returns a
  response with a status code and a body, which \<^verbatim>\<open>response.json()\<close> decodes unless it is
  no JSON text (\<open>None\<close>).
\<close>

datatype reply = Raises error | Response nat "json option"

text \<open>
  The session stands for the \<^verbatim>\<open>OAuth2Session\<close> and the service behind it: any
  deterministic service, given by its state and its answer to a request in a state. The
  session also keeps the requests issued so far, in order.
\<close>

record 's session =
  server :: "'s \<Rightarrow> request \<Rightarrow> reply \<times> 's"
  state :: 's
  sent :: "request list"

definition session_request :: "'s session \<Rightarrow> request \<Rightarrow> reply \<times> 's session" where
  "session_request sess req =
     (case server sess (state sess) req of
        (rep, st) \<Rightarrow> (rep, sess\<lparr>state := st, sent := sent sess @ [req]\<rparr>))"

definition session_get :: "'s session \<Rightarrow> pystr \<Rightarrow> (pystr \<rightharpoonup> pval) \<Rightarrow> reply \<times> 's session" where
  "session_get sess u ps = session_request sess \<lparr>verb = GET, url = u, params = ps\<rparr>"

definition session_post :: "'s session \<Rightarrow> pystr \<Rightarrow> (pystr \<rightharpoonup> pval) \<Rightarrow> reply \<times> 's session" where
  "session_post sess u ps = session_request sess \<lparr>verb = POST, url = u, params = ps\<rparr>"

text \<open>\<^verbatim>\<open>response.raise_for_status()\<close>: an HTTPError for a 4xx or 5xx status.\<close>

definition raise_for_status :: "nat \<Rightarrow> error option" where
  "raise_for_status st = (if 400 \<le> st \<and> st < 600 then Some (HTTPError st) else None)"

definition response_json :: "json option \<Rightarrow> error + json" where
  "response_json body = (case body of None \<Rightarrow> Inl JSONDecodeError | Some j \<Rightarrow> Inr j)"

text \<open>
  \<^verbatim>\<open>k in v\<close> for a string \<open>k\<close> and a decoded value \<open>v\<close>: a key of a dict, an element of a
  list, a substring of a string; the other values are not iterable.
\<close>

fun is_substring :: "pystr \<Rightarrow> pystr \<Rightarrow> bool" where
  "is_substring p [] \<longleftrightarrow> p = []"
| "is_substring p (c # s) \<longleftrightarrow> take (length p) (c # s) = p \<or> is_substring p s"

definition py_in :: "pystr \<Rightarrow> json \<Rightarrow> error + bool" where
  "py_in k v =
     (case v of
        JObj kvs \<Rightarrow> Inr (map_of (rev kvs) k \<noteq> None)
      | JList xs \<Rightarrow> Inr (JStr k \<in> set xs)
      | JStr s \<Rightarrow> Inr (is_substring k s)
      | _ \<Rightarrow> Inl TypeError)"

text \<open>\<^verbatim>\<open>v[k]\<close> for a string \<open>k\<close>: only a dict can be indexed by a string.\<close>

definition py_getitem :: "json \<Rightarrow> pystr \<Rightarrow> error + json" where
  "py_getitem v k =
     (case v of
        JObj kvs \<Rightarrow> (case map_of (rev kvs) k of None \<Rightarrow> Inl KeyError | Some x \<Rightarrow> Inr x)
      | _ \<Rightarrow> Inl TypeError)"

text \<open>
  \<^verbatim>\<open>v[1:]\<close>: all but the first element of a list; all but the first character of a
  string, which \<^verbatim>\<open>extend\<close> and \<^verbatim>\<open>len\<close> then take character by character; a dict cannot be
  sliced.
\<close>

definition py_rest :: "json \<Rightarrow> error + json list" where
  "py_rest v =
     (case v of
        JList xs \<Rightarrow> Inr (drop 1 xs)
      | JStr s \<Rightarrow> Inr (map (\<lambda>c. JStr [c]) (drop 1 s))
      | _ \<Rightarrow> Inl TypeError)"

subsection \<open>ToodledoError\<close>

definition errorCodeToMessage :: "(int \<times> pystr) list" where
  "errorCodeToMessage =
     [(1, str ''No access token was given''),
      (2, str ''The access token was invalid''),
      (3, str ''Too many API requests''),
      (4, str ''The API is offline for maintenance''),
      (601, str ''Your task must have a title.''),
      (602, str ''Only 50 tasks can be added/edited/deleted at a time.''),
      (603, str ''The maximum number of tasks allowed per account (20000) has been reached''),
      (604, str ''Empty id''),
      (605, str ''Invalid task''),
      (606, str ''Nothing was added/edited. You'' @ [39] @ str ''ll get this error if you attempt to edit a task but don'' @ [39] @ str ''t pass any parameters to edit.''),
      (607, str ''Invalid folder id''),
      (608, str ''Invalid context id''),
      (609, str ''Invalid goal id''),
      (610, str ''Invalid location id''),
      (611, str ''Malformed request''),
      (612, str ''Invalid parent id''),
      (613, str ''Incorrect field parameters''),
      (614, str ''Parent was deleted''),
      (615, str ''Invalid collaborator''),
      (616, str ''Unable to reassign or share task'')]"

definition message_of_code :: "int \<Rightarrow> pystr" where
  "message_of_code n =
     (case map_of errorCodeToMessage n of None \<Rightarrow> str ''Unknown error'' | Some m \<Rightarrow> m)"

text \<open>
  \<^verbatim>\<open>ToodledoError(errorCode)\<close>: \<^verbatim>\<open>errorCodeToMessage.get(errorCode, "Unknown error")\<close> looks
  the code up by hash and equality, so \<^verbatim>\<open>True\<close> finds the key 1, a string or \<^verbatim>\<open>None\<close> finds
  nothing, and a list or dict cannot be hashed (the constructor raises TypeError instead
  of returning).
\<close>

definition new_ToodledoError :: "json \<Rightarrow> error" where
  "new_ToodledoError errorCode =
     (case errorCode of
        JNum n \<Rightarrow> ToodledoError (message_of_code n) errorCode
      | JBool b \<Rightarrow> ToodledoError (message_of_code (if b then 1 else 0)) errorCode
      | JNull \<Rightarrow> ToodledoError (str ''Unknown error'') errorCode
      | JStr s \<Rightarrow> ToodledoError (str ''Unknown error'') errorCode
      | JList xs \<Rightarrow> TypeError
      | JObj kvs \<Rightarrow> TypeError)"

section \<open>Record schema\<close>

text \<open>
  A \<^verbatim>\<open>Task\<close> is a bag of attributes. The model keeps the seven the schema declares, each
  one optional: \<open>None\<close> says that the object has no such attribute. A date attribute
  that is present holds \<^verbatim>\<open>None\<close> or a date, so it is an option inside the option.
  The attribute \<^verbatim>\<open>id_\<close> is the field \<open>task_id\<close> (a name cannot end with an underscore
  here).
  \<^verbatim>\<open>
  class TaskSchema(Schema):
      id_ = fields.Integer(dump_to="id", load_from="id")
      title = fields.String(validate=Length(max=255))
      tags = ToodledoTags(dump_to="tag", load_from="tag")
      startDate = ToodledoDate(dump_to="startdate", load_from="startdate")
      dueDate = ToodledoDate(dump_to="duedate", load_from="duedate")
      modified = ToodledoDatetime()
      completedDate = ToodledoDate(dump_to="completed", load_from="completed")
  \<close>
\<close>

record task =
  task_id :: "int option"
  title :: "pystr option"
  tags :: "pystr list option"
  startDate :: "date option option"
  dueDate :: "date option option"
  modified :: "datetime option option"
  completedDate :: "date option option"

text \<open>
  \<^verbatim>\<open>schema.dump(obj)\<close> returns a pair of the serialized data and the errors found. The
  source reads \<^verbatim>\<open>.data\<close> of it, which is the interface of marshmallow 2, and builds the
  schema as \<^verbatim>\<open>TaskSchema()\<close>, which is not strict: a ValidationError that a field raises is
  caught and reported in \<^verbatim>\<open>.errors\<close>. Any other exception of a field leaves
  \<^verbatim>\<open>schema.dump\<close>.
\<close>

record marshal_result =
  data :: json
  errors :: "(pystr \<times> pystr) list"

text \<open>
  One declared field in a dump, as the members and the errors it contributes: an
  attribute the object lacks is left out; one it has is written under the field's wire
  name by the field's serializer; a ValidationError of the serializer is recorded under
  that name and the field left out; any other exception is raised.
\<close>

definition dump_field ::
  "pystr \<Rightarrow> 'a option \<Rightarrow> ('a \<Rightarrow> error + json) \<Rightarrow>
     error + (pystr \<times> json) list \<times> (pystr \<times> pystr) list" where
  "dump_field key a ser =
     (case a of
        None \<Rightarrow> Inr ([], [])
      | Some v \<Rightarrow>
          (case ser v of
             Inr j \<Rightarrow> Inr ([(key, j)], [])
           | Inl (ValidationError m) \<Rightarrow> Inr ([], [(key, m)])
           | Inl e \<Rightarrow> Inl e))"

text \<open>The fields of a schema in turn: the first exception ends the dump.\<close>

fun marshal ::
  "(error + (pystr \<times> json) list \<times> (pystr \<times> pystr) list) list \<Rightarrow>
     error + (pystr \<times> json) list \<times> (pystr \<times> pystr) list" where
  "marshal [] = Inr ([], [])"
| "marshal (f # fs) =
     (case f of
        Inl e \<Rightarrow> Inl e
      | Inr (kvs, errs) \<Rightarrow>
          (case marshal fs of
             Inl e \<Rightarrow> Inl e
           | Inr (kvs', errs') \<Rightarrow> Inr (kvs @ kvs', errs @ errs')))"

text \<open>The number a codec returns, as a JSON value.\<close>

definition as_number :: "error + int \<Rightarrow> error + json" where
  "as_number r = (case r of Inl e \<Rightarrow> Inl e | Inr n \<Rightarrow> Inr (JNum n))"

text \<open>
  \<^verbatim>\<open>TaskSchema().dump(task)\<close>. Serialization runs the serializers of the fields and no
  validator (the library validates on \<^verbatim>\<open>load\<close> only), so \<^verbatim>\<open>Length(max=255)\<close> is not
  consulted. The integer and the string field and the tag codec return a value; the date
  and datetime codecs return a value or raise.
\<close>

definition TaskSchema_dump :: "int \<Rightarrow> task \<Rightarrow> error + marshal_result" where
  "TaskSchema_dump tz t =
     (case marshal
        [dump_field (str ''id'') (task_id t) (\<lambda>v. Inr (JNum v)),
         dump_field (str ''title'') (title t) (\<lambda>v. Inr (JStr v)),
         dump_field (str ''tag'') (tags t) (\<lambda>v. Inr (JStr (ToodledoTags_serialize v))),
         dump_field (str ''startdate'') (startDate t) (\<lambda>v. as_number (ToodledoDate_serialize tz v)),
         dump_field (str ''duedate'') (dueDate t) (\<lambda>v. as_number (ToodledoDate_serialize tz v)),
         dump_field (str ''modified'') (modified t) (\<lambda>v. as_number (ToodledoDatetime_serialize tz v)),
         dump_field (str ''completed'') (completedDate t)
           (\<lambda>v. as_number (ToodledoDate_serialize tz v))] of
        Inl e \<Rightarrow> Inl e
      | Inr (kvs, errs) \<Rightarrow> Inr \<lparr>data = JObj kvs, errors = errs\<rparr>)"

text \<open>
  \<^verbatim>\<open>
  def DumpTaskList(taskList):
      schema = TaskSchema()
      return [schema.dump(task).data for task in taskList]
  \<close>
  The comprehension dumps the tasks in order; an exception of a dump ends it.
\<close>

fun DumpTaskList :: "int \<Rightarrow> task list \<Rightarrow> error + json list" where
  "DumpTaskList tz [] = Inr []"
| "DumpTaskList tz (t # ts) =
     (case TaskSchema_dump tz t of
        Inl e \<Rightarrow> Inl e
      | Inr r \<Rightarrow>
          (case DumpTaskList tz ts of
             Inl e \<Rightarrow> Inl e
           | Inr js \<Rightarrow> Inr (data r # js)))"

text \<open>
  \<^verbatim>\<open>schema.load(x).data\<close>, the decoding of one wire record by the library from the schema's
  declaration, is a parameter \<open>load\<close> of the operations that read: it returns the loaded
  value or raises. \<open>load_all\<close> is the comprehension \<^verbatim>\<open>[schema.load(x).data for x in xs]\<close>.
\<close>

fun load_all :: "(json \<Rightarrow> error + 'a) \<Rightarrow> json list \<Rightarrow> error + 'a list" where
  "load_all load [] = Inr []"
| "load_all load (x # xs) =
     (case load x of
        Inl e \<Rightarrow> Inl e
      | Inr v \<Rightarrow> (case load_all load xs of Inl e \<Rightarrow> Inl e | Inr vs \<Rightarrow> Inr (v # vs)))"

section \<open>Batch transport\<close>

definition getAccountUrl :: pystr where
  "getAccountUrl = str ''https://api.toodledo.com/3/account/get.php''"

definition getTasksUrl :: pystr where
  "getTasksUrl = str ''https://api.toodledo.com/3/tasks/get.php''"

definition deleteTasksUrl :: pystr where
  "deleteTasksUrl = str ''https://api.toodledo.com/3/tasks/delete.php''"

definition addTasksUrl :: pystr where
  "addTasksUrl = str ''https://api.toodledo.com/3/tasks/add.php''"

definition editTasksUrl :: pystr where
  "editTasksUrl = str ''https://api.toodledo.com/3/tasks/edit.php''"

text \<open>
  \<^verbatim>\<open>
  def GetAccount(session):
      accountInfo = session.get(Toodledo.getAccountUrl)
      accountInfo.raise_for_status()
      return AccountSchema().load(accountInfo.json()).data
  \<close>
\<close>

definition GetAccount :: "(json \<Rightarrow> error + 'a) \<Rightarrow> 's session \<Rightarrow> (error + 'a) \<times> 's session" where
  "GetAccount load sess =
     (case session_get sess getAccountUrl Map.empty of
        (Raises e, sess') \<Rightarrow> (Inl e, sess')
      | (Response st body, sess') \<Rightarrow>
          (case raise_for_status st of
             Some e \<Rightarrow> (Inl e, sess')
           | None \<Rightarrow>
               (case response_json body of
                  Inl e \<Rightarrow> (Inl e, sess')
                | Inr j \<Rightarrow> (load j, sess'))))"

text \<open>
  \<^verbatim>\<open>
  def GetTasks(session, params):
      allTasks = []
      limit = 1000 # single request limit
      start = 0
      while True:
          params["start"] = start
          params["num"] = limit
          response = session.get(Toodledo.getTasksUrl, params=params)
          response.raise_for_status()
          tasks = response.json()
          if "errorCode" in tasks:
              raise ToodledoError(tasks["errorCode"])
          # the first field contains the count or the error code
          allTasks.extend(tasks[1:])
          if len(tasks[1:]) < limit:
              break
          start += limit
      schema = TaskSchema()
      return [schema.load(x).data for x in allTasks]
  \<close>
  \<^verbatim>\<open>params\<close> is the caller's dict, which the two assignments change in place: the model
  returns the dict as the call leaves it, next to the result and the session. The loop
  runs as long as the service sends full pages, so it need not end: not returning is
  \<open>None\<close>.
\<close>

partial_function (option) GetTasks_loop ::
  "json list \<Rightarrow> nat \<Rightarrow> (pystr \<rightharpoonup> pval) \<Rightarrow> 's session \<Rightarrow>
     ((error + json list) \<times> (pystr \<rightharpoonup> pval) \<times> 's session) option" where
  "GetTasks_loop allTasks start ps sess =
     (let limit = 1000;
          ps' = ps(str ''start'' \<mapsto> Val (JNum (int start)), str ''num'' \<mapsto> Val (JNum (int limit)))
      in case session_get sess getTasksUrl ps' of
        (Raises e, sess') \<Rightarrow> Some (Inl e, ps', sess')
      | (Response st body, sess') \<Rightarrow>
          (case raise_for_status st of
             Some e \<Rightarrow> Some (Inl e, ps', sess')
           | None \<Rightarrow>
               (case response_json body of
                  Inl e \<Rightarrow> Some (Inl e, ps', sess')
                | Inr tasks \<Rightarrow>
                    (case py_in (str ''errorCode'') tasks of
                       Inl e \<Rightarrow> Some (Inl e, ps', sess')
                     | Inr marked \<Rightarrow>
                         if marked then
                           (case py_getitem tasks (str ''errorCode'') of
                              Inl e \<Rightarrow> Some (Inl e, ps', sess')
                            | Inr c \<Rightarrow> Some (Inl (new_ToodledoError c), ps', sess'))
                         else
                           (case py_rest tasks of
                              Inl e \<Rightarrow> Some (Inl e, ps', sess')
                            | Inr page \<Rightarrow>
                                if length page < limit
                                then Some (Inr (allTasks @ page), ps', sess')
                                else GetTasks_loop (allTasks @ page) (start + limit) ps' sess')))))"

definition GetTasks ::
  "(json \<Rightarrow> error + 'a) \<Rightarrow> 's session \<Rightarrow> (pystr \<rightharpoonup> pval) \<Rightarrow>
     ((error + 'a list) \<times> (pystr \<rightharpoonup> pval) \<times> 's session) option" where
  "GetTasks load sess ps =
     (case GetTasks_loop [] 0 ps sess of
        None \<Rightarrow> None
      | Some (Inl e, ps', sess') \<Rightarrow> Some (Inl e, ps', sess')
      | Some (Inr allTasks, ps', sess') \<Rightarrow> Some (load_all load allTasks, ps', sess'))"

text \<open>
  \<^verbatim>\<open>
  def EditTasks(session, taskList):
      if len(taskList) == 0:
          return
      limit = 50 # single request limit
      start = 0
      while True:
          listDump = DumpTaskList(taskList[start: start + limit])
          response = session.post(Toodledo.editTasksUrl, params={"tasks":dumps(listDump)})
          response.raise_for_status()
          taskResponse = response.json()
          if "errorCode" in taskResponse:
              raise ToodledoError(taskResponse["errorCode"])
          if len(taskList[start: start + limit]) < limit:
              break
          start += limit
  \<close>
  The slice \<^verbatim>\<open>taskList[start: start + limit]\<close> is \<open>take limit (drop start taskList)\<close>. The
  loop is a function of \<open>start\<close>; it ends because a full chunk leaves fewer tasks after
  it. An exception of \<^verbatim>\<open>DumpTaskList\<close> leaves the function before the request of that
  turn.
\<close>

function EditTasks_loop :: "int \<Rightarrow> task list \<Rightarrow> nat \<Rightarrow> 's session \<Rightarrow> (error + unit) \<times> 's session" where
  "EditTasks_loop tz taskList start sess =
     (let limit = 50 in
      case DumpTaskList tz (take limit (drop start taskList)) of
        Inl e \<Rightarrow> (Inl e, sess)
      | Inr listDump \<Rightarrow>
          (case session_post sess editTasksUrl [str ''tasks'' \<mapsto> Dumps (JList listDump)] of
             (Raises e, sess') \<Rightarrow> (Inl e, sess')
           | (Response st body, sess') \<Rightarrow>
               (case raise_for_status st of
                  Some e \<Rightarrow> (Inl e, sess')
                | None \<Rightarrow>
                    (case response_json body of
                       Inl e \<Rightarrow> (Inl e, sess')
                     | Inr taskResponse \<Rightarrow>
                         (case py_in (str ''errorCode'') taskResponse of
                            Inl e \<Rightarrow> (Inl e, sess')
                          | Inr marked \<Rightarrow>
                              if marked then
                                (case py_getitem taskResponse (str ''errorCode'') of
                                   Inl e \<Rightarrow> (Inl e, sess')
                                 | Inr c \<Rightarrow> (Inl (new_ToodledoError c), sess'))
                              else if length (take limit (drop start taskList)) < limit
                              then (Inr (), sess')
                              else EditTasks_loop tz taskList (start + limit) sess')))))"
  by pat_completeness auto
termination
  by (relation "measure (\<lambda>(tz, taskList, start, sess). length taskList - start)") auto

definition EditTasks :: "int \<Rightarrow> 's session \<Rightarrow> task list \<Rightarrow> (error + unit) \<times> 's session" where
  "EditTasks tz sess taskList =
     (if length taskList = 0 then (Inr (), sess) else EditTasks_loop tz taskList 0 sess)"

text \<open>
  \<^verbatim>\<open>
  def AddTasks(session, taskList):
      if len(taskList) == 0:
          return
      limit = 50 # single request limit
      start = 0
      while True:
          listDump = DumpTaskList(taskList[start: start + limit])
          response = session.post(Toodledo.addTasksUrl, params={"tasks":dumps(listDump)})
          response.raise_for_status()
          if "errorCode" in response.json():
              raise ToodledoError(tasks["errorCode"])
          if len(taskList[start: start + limit]) < limit:
              break
          start += limit
  \<close>
  The name \<^verbatim>\<open>tasks\<close> in the \<^verbatim>\<open>raise\<close> statement is bound neither in the function (its
  names are \<^verbatim>\<open>session\<close>, \<^verbatim>\<open>taskList\<close>, \<^verbatim>\<open>limit\<close>, \<^verbatim>\<open>start\<close>, \<^verbatim>\<open>listDump\<close> and
  \<^verbatim>\<open>response\<close>) nor in the module: evaluating the argument of \<^verbatim>\<open>ToodledoError\<close> raises
  NameError.
\<close>

function AddTasks_loop :: "int \<Rightarrow> task list \<Rightarrow> nat \<Rightarrow> 's session \<Rightarrow> (error + unit) \<times> 's session" where
  "AddTasks_loop tz taskList start sess =
     (let limit = 50 in
      case DumpTaskList tz (take limit (drop start taskList)) of
        Inl e \<Rightarrow> (Inl e, sess)
      | Inr listDump \<Rightarrow>
          (case session_post sess addTasksUrl [str ''tasks'' \<mapsto> Dumps (JList listDump)] of
             (Raises e, sess') \<Rightarrow> (Inl e, sess')
           | (Response st body, sess') \<Rightarrow>
               (case raise_for_status st of
                  Some e \<Rightarrow> (Inl e, sess')
                | None \<Rightarrow>
                    (case response_json body of
                       Inl e \<Rightarrow> (Inl e, sess')
                     | Inr j \<Rightarrow>
                         (case py_in (str ''errorCode'') j of
                            Inl e \<Rightarrow> (Inl e, sess')
                          | Inr marked \<Rightarrow>
                              if marked then (Inl (NameError ''tasks''), sess')
                              else if length (take limit (drop start taskList)) < limit
                              then (Inr (), sess')
                              else AddTasks_loop tz taskList (start + limit) sess')))))"
  by pat_completeness auto
termination
  by (relation "measure (\<lambda>(tz, taskList, start, sess). length taskList - start)") auto

definition AddTasks :: "int \<Rightarrow> 's session \<Rightarrow> task list \<Rightarrow> (error + unit) \<times> 's session" where
  "AddTasks tz sess taskList =
     (if length taskList = 0 then (Inr (), sess) else AddTasks_loop tz taskList 0 sess)"

text \<open>
  \<^verbatim>\<open>
  def DeleteTasks(session, taskList):
      if len(taskList) == 0:
          return
      taskIdList = [task.id_ for task in taskList]
      limit = 50 # single request limit
      start = 0
      while True:
          response = session.post(Toodledo.deleteTasksUrl,
                                  params={"tasks":dumps(taskIdList[start: start + limit])})
          response.raise_for_status()
          if "errorCode" in response.json():
              raise ToodledoError(tasks["errorCode"])
          if len(taskIdList[start: start + limit]) < limit:
              break
          start += limit
  \<close>
  \<^verbatim>\<open>task.id_\<close> raises AttributeError for a task without the attribute. The name \<^verbatim>\<open>tasks\<close>
  is unbound here as in \<^verbatim>\<open>AddTasks\<close>.
\<close>

fun task_ids :: "task list \<Rightarrow> error + int list" where
  "task_ids [] = Inr []"
| "task_ids (t # ts) =
     (case task_id t of
        None \<Rightarrow> Inl (AttributeError ''id_'')
      | Some i \<Rightarrow> (case task_ids ts of Inl e \<Rightarrow> Inl e | Inr is \<Rightarrow> Inr (i # is)))"

function DeleteTasks_loop :: "int list \<Rightarrow> nat \<Rightarrow> 's session \<Rightarrow> (error + unit) \<times> 's session" where
  "DeleteTasks_loop taskIdList start sess =
     (let limit = 50
      in case session_post sess deleteTasksUrl
             [str ''tasks'' \<mapsto> Dumps (JList (map JNum (take limit (drop start taskIdList))))] of
        (Raises e, sess') \<Rightarrow> (Inl e, sess')
      | (Response st body, sess') \<Rightarrow>
          (case raise_for_status st of
             Some e \<Rightarrow> (Inl e, sess')
           | None \<Rightarrow>
               (case response_json body of
                  Inl e \<Rightarrow> (Inl e, sess')
                | Inr j \<Rightarrow>
                    (case py_in (str ''errorCode'') j of
                       Inl e \<Rightarrow> (Inl e, sess')
                     | Inr marked \<Rightarrow>
                         if marked then (Inl (NameError ''tasks''), sess')
                         else if length (take limit (drop start taskIdList)) < limit
                         then (Inr (), sess')
                         else DeleteTasks_loop taskIdList (start + limit) sess'))))"
  by pat_completeness auto
termination
  by (relation "measure (\<lambda>(taskIdList, start, sess). length taskIdList - start)") auto

definition DeleteTasks :: "'s session \<Rightarrow> task list \<Rightarrow> (error + unit) \<times> 's session" where
  "DeleteTasks sess taskList =
     (if length taskList = 0 then (Inr (), sess)
      else case task_ids taskList of
        Inl e \<Rightarrow> (Inl e, sess)
      | Inr taskIdList \<Rightarrow> DeleteTasks_loop taskIdList 0 sess)"

section \<open>Service client\<close>

text \<open>
  Of the attributes of a \<^verbatim>\<open>Toodledo\<close> object the operations use \<^verbatim>\<open>self.session\<close> only (the
  others serve \<^verbatim>\<open>Authorize\<close> and \<^verbatim>\<open>Session\<close>).
\<close>

record 's toodledo =
  session :: "'s session"

text \<open>
  What a call hands back to its caller: the value of a \<^verbatim>\<open>return\<close> statement, or \<^verbatim>\<open>None\<close>
  when the function ends without one.
\<close>

datatype 'a returned = ReturnsNone | Returns 'a

text \<open>
  \<^verbatim>\<open>
  def ReauthorizeIfNecessary(self, func):
      try:
          return func(self.session)
      except TokenMissingError:
          # this can happen if the refresh token has expired
          self.session = self.Authorize()
          return func(self.session)
  \<close>
  The module binds the names of its four import statements (\<^verbatim>\<open>date\<close>, \<^verbatim>\<open>datetime\<close>,
  \<^verbatim>\<open>partial\<close>, \<^verbatim>\<open>dump\<close>, \<^verbatim>\<open>dumps\<close>, \<^verbatim>\<open>load\<close>, \<^verbatim>\<open>debug\<close>, \<^verbatim>\<open>error\<close>, \<^verbatim>\<open>fields\<close>,
  \<^verbatim>\<open>post_load\<close>, \<^verbatim>\<open>pre_load\<close>, \<^verbatim>\<open>Schema\<close>, \<^verbatim>\<open>Length\<close>, \<^verbatim>\<open>OAuth2Session\<close>) and of its own
  classes and functions; \<^verbatim>\<open>TokenMissingError\<close> is not among them. When \<^verbatim>\<open>func\<close> raises,
  whatever it raises, the \<^verbatim>\<open>except\<close> clause evaluates that name to compare, and this
  raises NameError: the handler's body, with \<^verbatim>\<open>Authorize\<close> and the second call, is never
  entered.

  \<open>func\<close> returns its outcome, what it leaves of the caller's objects it changes (the
  \<^verbatim>\<open>params\<close> dict of \<^verbatim>\<open>GetTasks\<close>), and the session; \<open>None\<close> when it does not return.
\<close>

definition ReauthorizeIfNecessary ::
  "'s toodledo \<Rightarrow> ('s session \<Rightarrow> ((error + 'a) \<times> 'm \<times> 's session) option) \<Rightarrow>
     ((error + 'a) \<times> 'm \<times> 's toodledo) option" where
  "ReauthorizeIfNecessary self func =
     (case func (session self) of
        None \<Rightarrow> None
      | Some (Inr v, m, sess') \<Rightarrow> Some (Inr v, m, self\<lparr>session := sess'\<rparr>)
      | Some (Inl e, m, sess') \<Rightarrow>
          Some (Inl (NameError ''TokenMissingError''), m, self\<lparr>session := sess'\<rparr>))"

text \<open>
  A method that calls \<^verbatim>\<open>ReauthorizeIfNecessary\<close> and has no \<^verbatim>\<open>return\<close> statement: an
  exception passes through, a value is dropped.
\<close>

definition discard ::
  "((error + 'a) \<times> 'm \<times> 's toodledo) option \<Rightarrow> ((error + 'b returned) \<times> 'm \<times> 's toodledo) option" where
  "discard r =
     (case r of
        None \<Rightarrow> None
      | Some (Inl e, m, self') \<Rightarrow> Some (Inl e, m, self')
      | Some (Inr v, m, self') \<Rightarrow> Some (Inr ReturnsNone, m, self'))"

text \<open>
  \<^verbatim>\<open>
  def GetAccount(self):
      self.ReauthorizeIfNecessary(partial(GetAccount))

  def GetTasks(self, params):
      self.ReauthorizeIfNecessary(partial(GetTasks, params=params))
  \<close>
\<close>

definition Toodledo_GetAccount ::
  "(json \<Rightarrow> error + 'a) \<Rightarrow> 's toodledo \<Rightarrow> ((error + 'a returned) \<times> unit \<times> 's toodledo) option" where
  "Toodledo_GetAccount load self =
     discard (ReauthorizeIfNecessary self
       (\<lambda>sess. case GetAccount load sess of (r, sess') \<Rightarrow> Some (r, (), sess')))"

definition Toodledo_GetTasks ::
  "(json \<Rightarrow> error + 'a) \<Rightarrow> 's toodledo \<Rightarrow> (pystr \<rightharpoonup> pval) \<Rightarrow>
     ((error + 'a list returned) \<times> (pystr \<rightharpoonup> pval) \<times> 's toodledo) option" where
  "Toodledo_GetTasks load self ps =
     discard (ReauthorizeIfNecessary self (\<lambda>sess. GetTasks load sess ps))"

text \<open>
  \<^verbatim>\<open>
  def EditTasks(self, params):
      self.ReauthorizeIfNecessary(partial(EditTasks, params=params))

  def AddTasks(self, params):
      self.ReauthorizeIfNecessary(partial(AddTasks, params=params))

  def DeleteTasks(self, params):
      self.ReauthorizeIfNecessary(partial(DeleteTasks, params=params))
  \<close>
  The three module functions take \<^verbatim>\<open>(session, taskList)\<close>: called as
  \<^verbatim>\<open>EditTasks(session, params=...)\<close> they raise TypeError (no parameter of that name)
  before their body runs, whatever the argument.
\<close>

definition Toodledo_EditTasks ::
  "'s toodledo \<Rightarrow> task list \<Rightarrow> ((error + unit returned) \<times> unit \<times> 's toodledo) option" where
  "Toodledo_EditTasks self ps =
     discard (ReauthorizeIfNecessary self
       (\<lambda>sess. Some (Inl TypeError :: error + unit, (), sess)))"

definition Toodledo_AddTasks ::
  "'s toodledo \<Rightarrow> task list \<Rightarrow> ((error + unit returned) \<times> unit \<times> 's toodledo) option" where
  "Toodledo_AddTasks self ps =
     discard (ReauthorizeIfNecessary self
       (\<lambda>sess. Some (Inl TypeError :: error + unit, (), sess)))"

definition Toodledo_DeleteTasks ::
  "'s toodledo \<Rightarrow> task list \<Rightarrow> ((error + unit returned) \<times> unit \<times> 's toodledo) option" where
  "Toodledo_DeleteTasks self ps =
     discard (ReauthorizeIfNecessary self
       (\<lambda>sess. Some (Inl TypeError :: error + unit, (), sess)))"

section \<open>Services and requests used to state the properties\<close>

text \<open>
  A service that plays a fixed list of replies, one per request, and has nothing more to
  say after the last (the connection fails).
\<close>

definition scripted :: "reply list \<Rightarrow> request \<Rightarrow> reply \<times> reply list" where
  "scripted rs req = (case rs of [] \<Rightarrow> (Raises ConnectionError, []) | r # rs' \<Rightarrow> (r, rs'))"

definition scripted_session :: "reply list \<Rightarrow> reply list session" where
  "scripted_session rs = \<lparr>server = scripted, state = rs, sent = []\<rparr>"










definition blank_task :: task where
  "blank_task = \<lparr>task_id = None, title = None, tags = None, startDate = None,
                 dueDate = None, modified = None, completedDate = None\<rparr>"

text \<open>
  A service that answers every request with status 200 and the body
  \<^verbatim>\<open>{"errorCode": c}\<close>.
\<close>

definition marker_session :: "json \<Rightarrow> unit session" where
  "marker_session c =
     \<lparr>server = (\<lambda>s req. (Response 200 (Some (JObj [(str ''errorCode'', c)])), s)),
      state = (), sent = []\<rparr>"


text \<open>
  The request of one turn of \<^verbatim>\<open>GetTasks\<close>, and the response of the service to it: a JSON
  list whose first element is the count marker and whose other elements are the tasks of
  the page.
\<close>

definition paged_request :: "(pystr \<rightharpoonup> pval) \<Rightarrow> nat \<Rightarrow> request" where
  "paged_request ps start =
     \<lparr>verb = GET, url = getTasksUrl,
      params = ps(str ''start'' \<mapsto> Val (JNum (int start)), str ''num'' \<mapsto> Val (JNum 1000))\<rparr>"

definition page_reply :: "json \<Rightarrow> json list \<Rightarrow> reply" where
  "page_reply marker items = Response 200 (Some (JList (marker # items)))"

text \<open>
  The request of \<^verbatim>\<open>GetAccount\<close>, and a body the account endpoint answers with.
\<close>

definition account_request :: request where
  "account_request = \<lparr>verb = GET, url = getAccountUrl, params = Map.empty\<rparr>"

definition account_body :: json where
  "account_body =
     JObj [(str ''lastedit_task'', JNum 1577836800), (str ''lastdelete_task'', JNum 0)]"
section \<open>Properties of the tag codec\<close>

lemma split_not_Nil: "split c s \<noteq> []"
  by (induction s) (auto split: list.splits)

lemma split_free: "c \<notin> set s \<Longrightarrow> split c s = [s]"
  by (induction s) auto

lemma split_append_sep: "c \<notin> set x \<Longrightarrow> split c (x @ c # r) = x # split c r"
  by (induction x) auto

lemma comma_space: "str '', '' = [44, 32]"
  by (simp add: str_def)

text \<open>
  Splitting a joined list of comma-free strings gives the strings back, each but the
  first with the separator's space in front.
\<close>

lemma split_join_comma:
  "\<forall>t\<in>set (x # xs). 44 \<notin> set t \<Longrightarrow>
   split 44 (join (str '', '') (x # xs)) = x # map (\<lambda>t. 32 # t) xs"
proof (induction xs arbitrary: x)
  case Nil
  then show ?case by (simp add: split_free)
next
  case (Cons y ys)
  have "split 44 (join (str '', '') (x # y # ys)) =
        x # split 44 (32 # join (str '', '') (y # ys))"
    using Cons.prems by (simp add: comma_space split_append_sep)
  also have "split 44 (32 # join (str '', '') (y # ys)) =
     (case split 44 (join (str '', '') (y # ys)) of w # ws \<Rightarrow> (32 # w) # ws | [] \<Rightarrow> [[32]])"
    by simp
  also have "split 44 (join (str '', '') (y # ys)) = y # map (\<lambda>t. 32 # t) ys"
    using Cons.prems by (intro Cons.IH) simp
  finally show ?case by simp
qed

lemma strip_space_Cons: "strip (32 # t) = strip t"
  by (simp add: strip_def isspace_def)

lemma strip_split_join:
  assumes "\<forall>t\<in>set xs. 44 \<notin> set t" and "xs \<noteq> []"
  shows "map strip (split 44 (join (str '', '') xs)) = map strip xs"
proof -
  from assms(2) obtain y ys where xs: "xs = y # ys" by (cases xs) auto
  have "split 44 (join (str '', '') (y # ys)) = y # map (\<lambda>t. 32 # t) ys"
    using assms(1) unfolding xs by (rule split_join_comma)
  then show ?thesis by (simp add: xs strip_space_Cons)
qed

lemma join_eq_Nil: "sep \<noteq> [] \<Longrightarrow> join sep xs = [] \<longleftrightarrow> xs = [] \<or> xs = [[]]"
  by (induction sep xs rule: join.induct) auto

lemma sort_eq_singleton:
  fixes xs :: "pystr list"
  assumes "sort xs = [a]"
  shows "xs = [a]"
proof -
  have "length (sort xs) = 1" using assms by simp
  then have "length xs = 1" by simp
  then obtain b where xs: "xs = [b]" by (cases xs) auto
  with assms show ?thesis by simp
qed

lemma serialize_eq_Nil:
  "ToodledoTags_serialize tgs = [] \<longleftrightarrow> tgs = [] \<or> tgs = [[]]"
proof
  assume "ToodledoTags_serialize tgs = []"
  then have "sort tgs = [] \<or> sort tgs = [[]]"
    by (simp add: ToodledoTags_serialize_def sorted_py_def join_eq_Nil comma_space)
  moreover have "tgs = []" if "sort tgs = []"
  proof -
    from that have "length (sort tgs) = 0" by simp
    then show ?thesis by simp
  qed
  ultimately show "tgs = [] \<or> tgs = [[]]"
    using sort_eq_singleton [of tgs "[]"] by blast
next
  assume "tgs = [] \<or> tgs = [[]]"
  then show "ToodledoTags_serialize tgs = []"
    by (auto simp: ToodledoTags_serialize_def sorted_py_def)
qed

text \<open>
  C6 (as stated): for every list of tag strings,
  \<^verbatim>\<open>decode(encode(tags)) == sorted(trimmed(tags))\<close>. The code sorts the tags as stored
  and trims only after the split, splits at every comma, and reads the empty wire string
  as no tags. So the statement fails for a tag with surrounding whitespace that changes
  its place in the order, for a tag that contains a comma, and for the list holding only
  the empty tag.
\<close>

theorem tags_round_trip_counterexample:
  "ToodledoTags_deserialize (ToodledoTags_serialize [str '' b'', str ''a''])
     \<noteq> sorted_py (map strip [str '' b'', str ''a''])
   \<and> ToodledoTags_deserialize (ToodledoTags_serialize [str ''a,b''])
     \<noteq> sorted_py (map strip [str ''a,b''])
   \<and> ToodledoTags_deserialize (ToodledoTags_serialize [[]])
     \<noteq> sorted_py (map strip [[]])"
  by (simp add: ToodledoTags_deserialize_def ToodledoTags_serialize_def sorted_py_def
      str_def strip_def isspace_def)

text \<open>
  C6 (amended): \<^verbatim>\<open>encode([]) == ""\<close> and \<^verbatim>\<open>decode("") == []\<close>; for every list of tags
  none of which contains a comma, other than the list holding only the empty tag,
  \<^verbatim>\<open>decode(encode(tags))\<close> is the list of the tags sorted as stored, each then trimmed; when
  moreover no tag has surrounding whitespace this is \<^verbatim>\<open>sorted(trimmed(tags))\<close>.
\<close>

theorem tags_round_trip:
  "ToodledoTags_serialize [] = [] \<and> ToodledoTags_deserialize [] = [] \<and>
   ((\<forall>t\<in>set tgs. 44 \<notin> set t) \<and> tgs \<noteq> [[]] \<longrightarrow>
      ToodledoTags_deserialize (ToodledoTags_serialize tgs) = map strip (sorted_py tgs) \<and>
      (map strip tgs = tgs \<longrightarrow>
         ToodledoTags_deserialize (ToodledoTags_serialize tgs) = sorted_py (map strip tgs)))"
proof (intro conjI impI)
  show "ToodledoTags_serialize [] = []"
    by (simp add: ToodledoTags_serialize_def sorted_py_def)
  show "ToodledoTags_deserialize [] = []"
    by (simp add: ToodledoTags_deserialize_def)
next
  assume h: "(\<forall>t\<in>set tgs. 44 \<notin> set t) \<and> tgs \<noteq> [[]]"
  show rt: "ToodledoTags_deserialize (ToodledoTags_serialize tgs) = map strip (sorted_py tgs)"
  proof (cases "tgs = []")
    case True
    then show ?thesis
      by (simp add: ToodledoTags_deserialize_def ToodledoTags_serialize_def sorted_py_def)
  next
    case False
    with h have ne: "ToodledoTags_serialize tgs \<noteq> []"
      by (simp add: serialize_eq_Nil)
    have free: "\<forall>t\<in>set (sort tgs). 44 \<notin> set t" using h by simp
    have "length (sort tgs) \<noteq> 0" using False by simp
    then have "sort tgs \<noteq> []" by fastforce
    with free have "map strip (split 44 (join (str '', '') (sort tgs))) = map strip (sort tgs)"
      by (rule strip_split_join)
    with ne show ?thesis
      by (simp add: ToodledoTags_deserialize_def ToodledoTags_serialize_def sorted_py_def)
  qed
  assume idem: "map strip tgs = tgs"
  have "\<forall>t\<in>set tgs. strip t = t"
  proof
    fix t assume "t \<in> set tgs"
    then obtain i where "i < length tgs" "tgs ! i = t" by (auto simp: in_set_conv_nth)
    with idem show "strip t = t" by (metis nth_map)
  qed
  then have "map strip (sort tgs) = sort tgs" by (intro map_idI) simp
  with rt idem
  show "ToodledoTags_deserialize (ToodledoTags_serialize tgs) = sorted_py (map strip tgs)"
    by (simp add: sorted_py_def)
qed

theorem tags_round_trip_witness:
  "[str '' b'', str ''a''] \<noteq> [[]] \<and>
   ToodledoTags_deserialize (ToodledoTags_serialize [str '' b'', str ''a''])
     = [str ''b'', str ''a''] \<and>
   map strip [str ''b'', str ''a''] = [str ''b'', str ''a''] \<and>
   ToodledoTags_deserialize (ToodledoTags_serialize [str ''b'', str ''a''])
     = [str ''a'', str ''b'']"
proof -
  have h1: "(\<forall>t\<in>set [str '' b'', str ''a'']. 44 \<notin> set t) \<and> [str '' b'', str ''a''] \<noteq> [[]]"
    by (simp add: str_def)
  have h2: "(\<forall>t\<in>set [str ''b'', str ''a'']. 44 \<notin> set t) \<and> [str ''b'', str ''a''] \<noteq> [[]]"
    by (simp add: str_def)
  have h3: "map strip [str ''b'', str ''a''] = [str ''b'', str ''a'']"
    by (simp add: str_def strip_def isspace_def)
  have e1: "map strip (sorted_py [str '' b'', str ''a'']) = [str ''b'', str ''a'']"
    by (simp add: str_def strip_def isspace_def sorted_py_def)
  have e2: "sorted_py (map strip [str ''b'', str ''a'']) = [str ''a'', str ''b'']"
    by (simp add: str_def strip_def isspace_def sorted_py_def)
  from tags_round_trip [of "[str '' b'', str ''a'']"] h1 e1
  have r1: "ToodledoTags_deserialize (ToodledoTags_serialize [str '' b'', str ''a''])
            = [str ''b'', str ''a'']"
    by simp
  from tags_round_trip [of "[str ''b'', str ''a'']"] h2 h3 e2
  have r2: "ToodledoTags_deserialize (ToodledoTags_serialize [str ''b'', str ''a''])
            = [str ''a'', str ''b'']"
    by simp
  from h1 r1 h3 r2 show ?thesis by blast
qed

section \<open>Properties of the date codec\<close>

lemma timestamp_eq:
  "timestamp tz dt =
     (if wall_in_range (wallclock dt + tz) \<and> wall_in_range (wallclock dt) \<and>
         wall_in_range (wallclock dt - 86400)
      then Inr (wallclock dt - tz) else Inl ValueError)"
  by (simp add: timestamp_def local_seconds_def Let_def)

lemma date_serialize_Some:
  "ToodledoDate_serialize tz (Some d) =
     (if date_encodable tz d then Inr (86400 * daynum d - tz) else Inl ValueError)"
  by (simp add: ToodledoDate_serialize_def timestamp_eq datetime_of_date_def date_encodable_def)

lemma encodable_day_in_range:
  assumes "date_encodable tz d"
  shows "date_min_day \<le> daynum d \<and> daynum d \<le> date_max_day"
proof -
  from assms have "86400 * date_min_day \<le> 86400 * daynum d"
    and "86400 * daynum d < 86400 * (date_max_day + 1)"
    by (simp_all add: date_encodable_def wall_in_range_def)
  then show ?thesis by simp
qed

lemma date_deserialize_serialize:
  "(case ToodledoDate_serialize tz (Some d) of
      Inl e \<Rightarrow> Inl e
    | Inr v \<Rightarrow> ToodledoDate_deserialize tz v) =
     (if \<not> date_encodable tz d then Inl ValueError
      else if 86400 * daynum d = tz then Inr None else Inr (Some d))"
proof (cases "date_encodable tz d")
  case False
  then show ?thesis by (simp add: date_serialize_Some)
next
  case True
  have "(86400 * daynum d) div 86400 = daynum d" by simp
  with True encodable_day_in_range [OF True] show ?thesis
    by (simp add: date_serialize_Some ToodledoDate_deserialize_def date_fromtimestamp_def)
qed

lemma min_day_not_encodable: "\<not> date_encodable tz (Date date_min_day)"
  by (simp add: date_encodable_def wall_in_range_def)

lemma encodable_examples: "date_encodable 0 (Date 18262)" "date_encodable 0 (Date 0)"
  by (simp_all add: date_encodable_def wall_in_range_def date_min_day_def date_max_day_def)

text \<open>
  C4: \<^verbatim>\<open>encode(unset)\<close> is 0, and \<^verbatim>\<open>encode(d)\<close> is the epoch seconds of noon of the day
  \<open>d\<close>. The first half holds. For the second the code builds the datetime without an
  hour, so where it returns it encodes the local midnight that starts the day, against
  its own comment (``a GMT timestamp with the time set to noon''): the value is never the
  local noon, and it is the GMT noon only in the zone twelve hours west of Greenwich.
  With the clock on UTC, 2020-01-01 (day 18262) is encoded as 1577836800, not as
  1577880000. For the first day the library knows, 0001-01-01, the call raises.
\<close>

theorem date_serialize_is_midnight:
  "ToodledoDate_serialize tz None = Inr 0 \<and>
   ToodledoDate_serialize tz (Some d) =
     (if date_encodable tz d then Inr (86400 * daynum d - tz) else Inl ValueError) \<and>
   ToodledoDate_serialize tz (Some d) \<noteq> Inr (noon_local tz d) \<and>
   (ToodledoDate_serialize tz (Some d) = Inr (noon_GMT d) \<longleftrightarrow>
      date_encodable tz d \<and> tz = - 43200) \<and>
   ToodledoDate_serialize 0 (Some (Date 18262)) = Inr 1577836800 \<and>
   noon_GMT (Date 18262) = 1577880000 \<and> noon_local 0 (Date 18262) = 1577880000 \<and>
   ToodledoDate_serialize tz (Some (Date date_min_day)) = Inl ValueError"
proof -
  have "ToodledoDate_serialize tz None = Inr 0"
    by (simp add: ToodledoDate_serialize_def)
  moreover have "ToodledoDate_serialize tz (Some d) \<noteq> Inr (noon_local tz d)"
    by (simp add: date_serialize_Some noon_local_def)
  moreover have "ToodledoDate_serialize tz (Some d) = Inr (noon_GMT d) \<longleftrightarrow>
      date_encodable tz d \<and> tz = - 43200"
    by (auto simp: date_serialize_Some noon_GMT_def)
  moreover have "ToodledoDate_serialize 0 (Some (Date 18262)) = Inr 1577836800"
    by (simp add: date_serialize_Some encodable_examples)
  moreover have "noon_GMT (Date 18262) = 1577880000 \<and> noon_local 0 (Date 18262) = 1577880000"
    by (simp add: noon_GMT_def noon_local_def)
  moreover have "ToodledoDate_serialize tz (Some (Date date_min_day)) = Inl ValueError"
    by (simp add: date_serialize_Some min_day_not_encodable)
  ultimately show ?thesis
    using date_serialize_Some [of tz d] by blast
qed

text \<open>
  C5: \<^verbatim>\<open>decode(encode(d)) == d\<close> for every date \<open>d\<close>. Because the code encodes the local
  midnight, the day whose local midnight is the epoch is encoded as 0, the wire value of
  an unset date, and is decoded as unset: with the clock on UTC this is 1970-01-01. In a
  zone of one offset every other date that can be encoded comes back.
\<close>

theorem date_round_trip_loses_epoch_day:
  "ToodledoDate_serialize 0 (Some (Date 0)) = Inr 0 \<and>
   ToodledoDate_deserialize 0 0 = Inr None \<and>
   (case ToodledoDate_serialize 0 (Some (Date 0)) of
      Inl e \<Rightarrow> Inl e
    | Inr v \<Rightarrow> ToodledoDate_deserialize 0 v) = Inr None \<and>
   (case ToodledoDate_serialize tz (Some d) of
      Inl e \<Rightarrow> Inl e
    | Inr v \<Rightarrow> ToodledoDate_deserialize tz v) =
     (if \<not> date_encodable tz d then Inl ValueError
      else if 86400 * daynum d = tz then Inr None else Inr (Some d))"
proof -
  have a: "ToodledoDate_serialize 0 (Some (Date 0)) = Inr 0"
    by (simp add: date_serialize_Some encodable_examples)
  have b: "ToodledoDate_deserialize 0 0 = Inr None"
    by (simp add: ToodledoDate_deserialize_def)
  from a b have c: "(case ToodledoDate_serialize 0 (Some (Date 0)) of
      Inl e \<Rightarrow> Inl e
    | Inr v \<Rightarrow> ToodledoDate_deserialize 0 v) = Inr None"
    by simp
  from a b c date_deserialize_serialize [of tz d] show ?thesis by blast
qed

section \<open>Properties of the batched writes\<close>


declare AddTasks_loop.simps [simp del] EditTasks_loop.simps [simp del]
  DeleteTasks_loop.simps [simp del]


lemma sent_request:
  "sent (snd (session_request sess req)) = sent sess @ [req]"
  by (simp add: session_request_def split: prod.splits)




























lemma TaskSchema_dump_blank:
  "TaskSchema_dump tz blank_task = Inr \<lparr>data = JObj [], errors = []\<rparr>"
  by (simp add: TaskSchema_dump_def blank_task_def dump_field_def)







section \<open>Error-code markers\<close>

lemma marker_reply:
  "session_request (marker_session c) req =
     (Response 200 (Some (JObj [(str ''errorCode'', c)])), (marker_session c)\<lparr>sent := [req]\<rparr>)"
  by (simp add: session_request_def marker_session_def)

lemma marker_body:
  "py_in (str ''errorCode'') (JObj [(str ''errorCode'', c)]) = Inr True"
  "py_getitem (JObj [(str ''errorCode'', c)]) (str ''errorCode'') = Inr c"
  by (simp_all add: py_in_def py_getitem_def)

lemma message_601: "message_of_code 601 = str ''Your task must have a title.''"
  by (simp add: message_of_code_def errorCodeToMessage_def)

lemma message_999: "message_of_code 999 = str ''Unknown error''"
  by (simp add: message_of_code_def errorCodeToMessage_def)

text \<open>
  C7: a 2xx response whose body holds an error-code marker makes each of \<^verbatim>\<open>GetTasks\<close>,
  \<^verbatim>\<open>AddTasks\<close>, \<^verbatim>\<open>EditTasks\<close> and \<^verbatim>\<open>DeleteTasks\<close> raise the service error of that code, code
  601 with the message ``Your task must have a title.'' and an unknown code with
  ``Unknown error''. \<^verbatim>\<open>GetTasks\<close> does so, and so does \<^verbatim>\<open>EditTasks\<close> once the first chunk
  is dumped (a dump that raises ends the operation before the request). \<^verbatim>\<open>AddTasks\<close> and
  \<^verbatim>\<open>DeleteTasks\<close> name a variable \<^verbatim>\<open>tasks\<close> they do not have and raise NameError instead,
  whatever the code.
\<close>

theorem error_marker_outcomes:
  "fst (EditTasks tz (marker_session c) (t # ts)) =
     (case DumpTaskList tz (take 50 (t # ts)) of
        Inl e \<Rightarrow> Inl e
      | Inr js \<Rightarrow> Inl (new_ToodledoError c)) \<and>
   fst (EditTasks 0 (marker_session (JNum 601)) [blank_task]) =
     Inl (ToodledoError (str ''Your task must have a title.'') (JNum 601)) \<and>
   GetTasks load (marker_session c) ps =
     Some (Inl (new_ToodledoError c),
           ps(str ''start'' \<mapsto> Val (JNum 0), str ''num'' \<mapsto> Val (JNum 1000)),
           (marker_session c)\<lparr>sent :=
              [\<lparr>verb = GET, url = getTasksUrl,
                params = ps(str ''start'' \<mapsto> Val (JNum 0), str ''num'' \<mapsto> Val (JNum 1000))\<rparr>]\<rparr>) \<and>
   new_ToodledoError (JNum 601) = ToodledoError (str ''Your task must have a title.'') (JNum 601) \<and>
   new_ToodledoError (JNum 999) = ToodledoError (str ''Unknown error'') (JNum 999) \<and>
   fst (AddTasks tz (marker_session c) (t # ts)) =
     (case DumpTaskList tz (take 50 (t # ts)) of
        Inl e \<Rightarrow> Inl e
      | Inr js \<Rightarrow> Inl (NameError ''tasks'')) \<and>
   fst (DeleteTasks (marker_session c) [blank_task\<lparr>task_id := Some 7\<rparr>]) = Inl (NameError ''tasks'') \<and>
   fst (AddTasks 0 (marker_session (JNum 601)) [blank_task]) = Inl (NameError ''tasks'')"
proof -
  have e: "fst (EditTasks tz (marker_session c) (t # ts)) =
     (case DumpTaskList tz (take 50 (t # ts)) of
        Inl e \<Rightarrow> Inl e
      | Inr js \<Rightarrow> Inl (new_ToodledoError c))" for tz c t ts
    unfolding EditTasks_def
    by (subst EditTasks_loop.simps)
       (simp add: session_post_def marker_reply raise_for_status_def response_json_def
          marker_body Let_def split: sum.splits)
  have a: "fst (AddTasks tz (marker_session c) (t # ts)) =
     (case DumpTaskList tz (take 50 (t # ts)) of
        Inl e \<Rightarrow> Inl e
      | Inr js \<Rightarrow> Inl (NameError ''tasks''))" for tz c t ts
    unfolding AddTasks_def
    by (subst AddTasks_loop.simps)
       (simp add: session_post_def marker_reply raise_for_status_def response_json_def
          marker_body Let_def split: sum.splits)
  have b: "DumpTaskList 0 (take 50 [blank_task]) = Inr [JObj []]"
    by (simp add: TaskSchema_dump_blank)
  have d: "fst (DeleteTasks (marker_session c) [blank_task\<lparr>task_id := Some 7\<rparr>]) =
      Inl (NameError ''tasks'')"
    unfolding DeleteTasks_def
    by (subst DeleteTasks_loop.simps)
       (simp add: session_post_def marker_reply raise_for_status_def response_json_def
          marker_body Let_def)
  have g: "GetTasks load (marker_session c) ps =
     Some (Inl (new_ToodledoError c),
           ps(str ''start'' \<mapsto> Val (JNum 0), str ''num'' \<mapsto> Val (JNum 1000)),
           (marker_session c)\<lparr>sent :=
              [\<lparr>verb = GET, url = getTasksUrl,
                params = ps(str ''start'' \<mapsto> Val (JNum 0), str ''num'' \<mapsto> Val (JNum 1000))\<rparr>]\<rparr>)"
    unfolding GetTasks_def
    by (subst GetTasks_loop.simps)
       (simp add: session_get_def marker_reply raise_for_status_def response_json_def
          marker_body Let_def)
  have m: "new_ToodledoError (JNum 601) = ToodledoError (str ''Your task must have a title.'') (JNum 601)"
    "new_ToodledoError (JNum 999) = ToodledoError (str ''Unknown error'') (JNum 999)"
    by (simp_all add: new_ToodledoError_def message_601 message_999)
  have e1: "fst (EditTasks 0 (marker_session (JNum 601)) [blank_task]) =
     Inl (ToodledoError (str ''Your task must have a title.'') (JNum 601))"
    using e [of 0 "JNum 601" blank_task "[]"] by (simp only: b m sum.case)
  have a1: "fst (AddTasks 0 (marker_session (JNum 601)) [blank_task]) = Inl (NameError ''tasks'')"
    using a [of 0 "JNum 601" blank_task "[]"] by (simp only: b sum.case)
  from e [of tz c t ts] e1 g m a [of tz c t ts] d a1 show ?thesis by blast
qed

section \<open>Validation and the batched writes\<close>






















section \<open>Properties of the paged read\<close>

lemma paging_again:
  "(ps(a \<mapsto> x, b \<mapsto> y))(a \<mapsto> z, b \<mapsto> w) = ps(a \<mapsto> z, b \<mapsto> w)"
  by (auto simp: fun_eq_iff)

lemma load_all_length: "load_all load xs = Inr ys \<Longrightarrow> length ys = length xs"
  by (induction xs arbitrary: ys) (auto split: sum.splits)

lemma load_all_total: "load_all (\<lambda>x. Inr (f x)) xs = Inr (map f xs)"
  by (induction xs) auto

text \<open>One turn of the loop when the service answers with a page.\<close>

lemma GetTasks_loop_page:
  assumes rep: "server sess (state sess) (paged_request ps start) = (page_reply m p, st')"
    and clean: "JStr (str ''errorCode'') \<notin> set (m # p)"
  shows "GetTasks_loop allTasks start ps sess =
     (if length p < 1000
      then Some (Inr (allTasks @ p),
                 ps(str ''start'' \<mapsto> Val (JNum (int start)), str ''num'' \<mapsto> Val (JNum 1000)),
                 sess\<lparr>state := st', sent := sent sess @ [paged_request ps start]\<rparr>)
      else GetTasks_loop (allTasks @ p) (start + 1000)
             (ps(str ''start'' \<mapsto> Val (JNum (int start)), str ''num'' \<mapsto> Val (JNum 1000)))
             (sess\<lparr>state := st', sent := sent sess @ [paged_request ps start]\<rparr>))"
proof -
  have s: "session_request sess (paged_request ps start) =
      (Response 200 (Some (JList (m # p))),
       sess\<lparr>state := st', sent := sent sess @ [paged_request ps start]\<rparr>)"
    by (simp add: session_request_def rep [unfolded page_reply_def])
  have i: "py_in (str ''errorCode'') (JList (m # p)) = Inr False"
    using clean by (simp add: py_in_def)
  show ?thesis
    apply (subst GetTasks_loop.simps)
    unfolding Let_def session_get_def
    apply (simp only: paged_request_def [symmetric] of_nat_numeral)
    apply (simp add: s i raise_for_status_def response_json_def py_rest_def)
    done
qed

text \<open>
  C2: the service answers with three pages whose task portions hold 1000, 1000 and 400
  items. \<^verbatim>\<open>GetTasks\<close> returns; it has issued exactly three requests, with the start offsets
  0, 1000 and 2000 (and 1000 as the number asked for); and what it returns is the decoding
  of the 2400 items of the three task portions, in order, the first element of each
  response left out.
\<close>

theorem GetTasks_three_pages:
  assumes "length p1 = 1000" and "length p2 = 1000" and "length p3 = 400"
    and "JStr (str ''errorCode'') \<notin> set (m1 # p1) \<union> set (m2 # p2) \<union> set (m3 # p3)"
  shows "GetTasks load (scripted_session [page_reply m1 p1, page_reply m2 p2, page_reply m3 p3]) ps =
     Some (load_all load (p1 @ p2 @ p3),
           ps(str ''start'' \<mapsto> Val (JNum 2000), str ''num'' \<mapsto> Val (JNum 1000)),
           \<lparr>server = scripted, state = [],
            sent = [paged_request ps 0, paged_request ps 1000, paged_request ps 2000]\<rparr>) \<and>
     map (\<lambda>r. params r (str ''start''))
         [paged_request ps 0, paged_request ps 1000, paged_request ps 2000] =
       [Some (Val (JNum 0)), Some (Val (JNum 1000)), Some (Val (JNum 2000))] \<and>
     length (p1 @ p2 @ p3) = 2400 \<and>
     (\<forall>ys. load_all load (p1 @ p2 @ p3) = Inr ys \<longrightarrow> length ys = 2400) \<and>
     load_all (\<lambda>x. Inr (f x)) (p1 @ p2 @ p3) = Inr (map f (p1 @ p2 @ p3))"
proof -
  let ?r1 = "page_reply m1 p1" and ?r2 = "page_reply m2 p2" and ?r3 = "page_reply m3 p3"
  let ?s0 = "scripted_session [?r1, ?r2, ?r3]"
  let ?ps1 = "ps(str ''start'' \<mapsto> Val (JNum (int 0)), str ''num'' \<mapsto> Val (JNum 1000))"
  let ?s1 = "?s0\<lparr>state := [?r2, ?r3], sent := sent ?s0 @ [paged_request ps 0]\<rparr>"
  let ?ps2 = "?ps1(str ''start'' \<mapsto> Val (JNum (int (0 + 1000))), str ''num'' \<mapsto> Val (JNum 1000))"
  let ?s2 = "?s1\<lparr>state := [?r3], sent := sent ?s1 @ [paged_request ?ps1 (0 + 1000)]\<rparr>"
  let ?ps3 = "?ps2(str ''start'' \<mapsto> Val (JNum (int (0 + 1000 + 1000))), str ''num'' \<mapsto> Val (JNum 1000))"
  let ?s3 = "?s2\<lparr>state := [], sent := sent ?s2 @ [paged_request ?ps2 (0 + 1000 + 1000)]\<rparr>"
  have c: "JStr (str ''errorCode'') \<notin> set (m1 # p1)" "JStr (str ''errorCode'') \<notin> set (m2 # p2)"
    "JStr (str ''errorCode'') \<notin> set (m3 # p3)"
    using assms(4) by auto
  note c = c c [simplified]
  have t1: "GetTasks_loop [] 0 ps ?s0 = GetTasks_loop ([] @ p1) (0 + 1000) ?ps1 ?s1"
    by (subst GetTasks_loop_page [where m = m1 and p = p1 and st' = "[?r2, ?r3]"])
       (simp_all add: c assms scripted_session_def scripted_def)
  have t2: "GetTasks_loop ([] @ p1) (0 + 1000) ?ps1 ?s1 =
      GetTasks_loop (([] @ p1) @ p2) (0 + 1000 + 1000) ?ps2 ?s2"
    by (subst GetTasks_loop_page [where m = m2 and p = p2 and st' = "[?r3]"])
       (simp_all add: c assms scripted_session_def scripted_def)
  have t3: "GetTasks_loop (([] @ p1) @ p2) (0 + 1000 + 1000) ?ps2 ?s2 =
      Some (Inr ((([] @ p1) @ p2) @ p3), ?ps3, ?s3)"
    by (subst GetTasks_loop_page [where m = m3 and p = p3 and st' = "[]"])
       (simp_all add: c assms scripted_session_def scripted_def)
  have ps3: "?ps3 = ps(str ''start'' \<mapsto> Val (JNum 2000), str ''num'' \<mapsto> Val (JNum 1000))"
    by (auto simp: fun_eq_iff)
  have rq: "paged_request (qs(str ''start'' \<mapsto> x, str ''num'' \<mapsto> y)) n = paged_request qs n"
    for qs x y n
    by (simp add: paged_request_def paging_again)
  have s3: "?s3 = \<lparr>server = scripted, state = [],
            sent = [paged_request ps 0, paged_request ps 1000, paged_request ps 2000]\<rparr>"
    by (simp add: scripted_session_def rq)
  have g: "GetTasks load ?s0 ps =
     Some (load_all load (p1 @ p2 @ p3),
           ps(str ''start'' \<mapsto> Val (JNum 2000), str ''num'' \<mapsto> Val (JNum 1000)),
           \<lparr>server = scripted, state = [],
            sent = [paged_request ps 0, paged_request ps 1000, paged_request ps 2000]\<rparr>)"
    unfolding GetTasks_def t1 t2 t3 ps3 s3 by simp
  have st: "map (\<lambda>r. params r (str ''start''))
         [paged_request ps 0, paged_request ps 1000, paged_request ps 2000] =
       [Some (Val (JNum 0)), Some (Val (JNum 1000)), Some (Val (JNum 2000))]"
    by (simp add: paged_request_def str_def)
  have n: "length (p1 @ p2 @ p3) = 2400" using assms by simp
  have ln: "\<forall>ys. load_all load (p1 @ p2 @ p3) = Inr ys \<longrightarrow> length ys = 2400"
    using load_all_length [of load "p1 @ p2 @ p3"] n by auto
  from g st n ln load_all_total [of f "p1 @ p2 @ p3"] show ?thesis by blast
qed

theorem GetTasks_three_pages_witness:
  "length (replicate 1000 (JObj [])) = 1000 \<and> length (replicate 400 (JObj [])) = 400 \<and>
   GetTasks Inr
     (scripted_session
        [page_reply (JNum 1000) (replicate 1000 (JObj [])),
         page_reply (JNum 1000) (replicate 1000 (JObj [])),
         page_reply (JNum 400) (replicate 400 (JObj []))])
     Map.empty =
   Some (Inr (replicate 1000 (JObj []) @ replicate 1000 (JObj []) @ replicate 400 (JObj [])),
         [str ''start'' \<mapsto> Val (JNum 2000), str ''num'' \<mapsto> Val (JNum 1000)],
         \<lparr>server = scripted, state = [],
          sent = [paged_request Map.empty 0, paged_request Map.empty 1000,
                  paged_request Map.empty 2000]\<rparr>) \<and>
   length (replicate 1000 (JObj []) @ replicate 1000 (JObj []) @ replicate 400 (JObj [])) = 2400"
proof -
  let ?a = "replicate 1000 (JObj [])" and ?b = "replicate 400 (JObj [])"
  have h: "length ?a = 1000" "length ?b = 400" by simp_all
  have c: "JStr (str ''errorCode'') \<notin>
      set (JNum 1000 # ?a) \<union> set (JNum 1000 # ?a) \<union> set (JNum 400 # ?b)"
    by simp
  note th = GetTasks_three_pages [OF h(1) h(1) h(2) c, where load = Inr and f = "\<lambda>x. x"
      and ps = Map.empty]
  from th have la: "load_all Inr (?a @ ?a @ ?b) = Inr (?a @ ?a @ ?b)"
    by simp
  from th la have g: "GetTasks Inr
     (scripted_session [page_reply (JNum 1000) ?a, page_reply (JNum 1000) ?a, page_reply (JNum 400) ?b])
     Map.empty =
   Some (Inr (?a @ ?a @ ?b),
         [str ''start'' \<mapsto> Val (JNum 2000), str ''num'' \<mapsto> Val (JNum 1000)],
         \<lparr>server = scripted, state = [],
          sent = [paged_request Map.empty 0, paged_request Map.empty 1000,
                  paged_request Map.empty 2000]\<rparr>)"
    by (simp only:)
  from th have n: "length (?a @ ?a @ ?b) = 2400" by blast
  from h g n show ?thesis by blast
qed

section \<open>The caller's parameters in the paged read\<close>

lemma paged_request_again:
  "paged_request (qs(str ''start'' \<mapsto> x, str ''num'' \<mapsto> y)) n = paged_request qs n"
  by (simp add: paged_request_def paging_again)

text \<open>
  Whenever the loop returns, normally or not, it has issued the paged requests for
  \<open>start\<close>, \<open>start + 1000\<close>, ... up to some offset, and it leaves the caller's dict with
  that last offset and the limit written into it.
\<close>

lemma GetTasks_loop_frame:
  fixes sess :: "'s session"
  assumes ret: "GetTasks_loop allTasks start ps sess = Some y"
  shows "\<exists>n. fst (snd y) =
               ps(str ''start'' \<mapsto> Val (JNum (int (start + 1000 * n))),
                  str ''num'' \<mapsto> Val (JNum 1000)) \<and>
             sent (snd (snd y)) =
               sent sess @ map (\<lambda>j. paged_request ps (start + 1000 * j)) [0..<Suc n]"
proof -
  let ?P = "\<lambda>(allTasks :: json list) start ps (sess :: 's session)
              (y :: (error + json list) \<times> (pystr \<rightharpoonup> pval) \<times> 's session).
      \<exists>n. fst (snd y) =
               ps(str ''start'' \<mapsto> Val (JNum (int (start + 1000 * n))),
                  str ''num'' \<mapsto> Val (JNum 1000)) \<and>
             sent (snd (snd y)) =
               sent sess @ map (\<lambda>j. paged_request ps (start + 1000 * j)) [0..<Suc n]"
  show ?thesis
  proof (rule GetTasks_loop.raw_induct [where P = ?P, OF _ ret])
    fix f :: "json list \<Rightarrow> nat \<Rightarrow> (pystr \<rightharpoonup> pval) \<Rightarrow> 's session \<Rightarrow>
                ((error + json list) \<times> (pystr \<rightharpoonup> pval) \<times> 's session) option"
      and allTasks start ps and sess :: "'s session" and y
    assume IH: "\<And>a st p se y. f a st p se = Some y \<Longrightarrow> ?P a st p se y"
      and body: "(let limit = 1000;
          ps' = ps(str ''start'' \<mapsto> Val (JNum (int start)), str ''num'' \<mapsto> Val (JNum (int limit)))
        in case session_get sess getTasksUrl ps' of
          (Raises e, sess') \<Rightarrow> Some (Inl e, ps', sess')
        | (Response st body, sess') \<Rightarrow>
            (case raise_for_status st of
               Some e \<Rightarrow> Some (Inl e, ps', sess')
             | None \<Rightarrow>
                 (case response_json body of
                    Inl e \<Rightarrow> Some (Inl e, ps', sess')
                  | Inr tasks \<Rightarrow>
                      (case py_in (str ''errorCode'') tasks of
                         Inl e \<Rightarrow> Some (Inl e, ps', sess')
                       | Inr marked \<Rightarrow>
                           if marked then
                             (case py_getitem tasks (str ''errorCode'') of
                                Inl e \<Rightarrow> Some (Inl e, ps', sess')
                              | Inr c \<Rightarrow> Some (Inl (new_ToodledoError c), ps', sess'))
                           else
                             (case py_rest tasks of
                                Inl e \<Rightarrow> Some (Inl e, ps', sess')
                              | Inr page \<Rightarrow>
                                  if length page < limit
                                  then Some (Inr (allTasks @ page), ps', sess')
                                  else f (allTasks @ page) (start + limit) ps' sess'))))) = Some y"
    define ps1 where
      "ps1 = ps(str ''start'' \<mapsto> Val (JNum (int start)), str ''num'' \<mapsto> Val (JNum 1000))"
    obtain rep sess1 where s: "session_request sess (paged_request ps start) = (rep, sess1)"
      by (cases "session_request sess (paged_request ps start)") auto
    have sent1: "sent sess1 = sent sess @ [paged_request ps start]"
      using sent_request [of sess "paged_request ps start"] s by simp
    have g: "session_get sess getTasksUrl ps1 = (rep, sess1)"
      using s by (simp add: session_get_def paged_request_def ps1_def)
    from body have "snd y = (ps1, sess1) \<or> (\<exists>a. f a (start + 1000) ps1 sess1 = Some y)"
      unfolding Let_def of_nat_numeral ps1_def [symmetric] g
      by (auto split: reply.splits option.splits sum.splits if_splits)
    then show "?P allTasks start ps sess y"
    proof
      assume "snd y = (ps1, sess1)"
      then have "fst (snd y) =
                 ps(str ''start'' \<mapsto> Val (JNum (int (start + 1000 * 0))),
                    str ''num'' \<mapsto> Val (JNum 1000)) \<and>
               sent (snd (snd y)) =
                 sent sess @ map (\<lambda>j. paged_request ps (start + 1000 * j)) [0..<Suc 0]"
        by (simp add: ps1_def sent1)
      then show ?thesis by blast
    next
      assume "\<exists>a. f a (start + 1000) ps1 sess1 = Some y"
      then obtain a where "f a (start + 1000) ps1 sess1 = Some y" by blast
      from IH [OF this] obtain n where
        p: "fst (snd y) = ps1(str ''start'' \<mapsto> Val (JNum (int (start + 1000 + 1000 * n))),
                    str ''num'' \<mapsto> Val (JNum 1000))"
        and q: "sent (snd (snd y)) =
                 sent sess1 @ map (\<lambda>j. paged_request ps1 (start + 1000 + 1000 * j)) [0..<Suc n]"
        by blast
      have p': "fst (snd y) = ps(str ''start'' \<mapsto> Val (JNum (int (start + 1000 * Suc n))),
                    str ''num'' \<mapsto> Val (JNum 1000))"
        unfolding p ps1_def by (simp add: paging_again add.assoc)
      have "map (\<lambda>j. paged_request ps (start + 1000 * j)) [0..<Suc (Suc n)] =
          paged_request ps start #
            map (\<lambda>j. paged_request ps1 (start + 1000 + 1000 * j)) [0..<Suc n]"
      proof -
        have "[0..<Suc (Suc n)] = 0 # map Suc [0..<Suc n]"
          by (simp only: map_Suc_upt upt_conv_Cons [of 0 "Suc (Suc n)"])
        then show ?thesis
          by (simp add: ps1_def paged_request_again comp_def add.assoc del: upt_Suc)
      qed
      with q have q': "sent (snd (snd y)) =
          sent sess @ map (\<lambda>j. paged_request ps (start + 1000 * j)) [0..<Suc (Suc n)]"
        by (simp add: sent1 del: upt_Suc)
      from p' q' show ?thesis by blast
    qed
  qed
qed

text \<open>
  A scripted service has finitely many replies and then fails, so \<^verbatim>\<open>GetTasks\<close> returns on
  it, whatever the script.
\<close>

lemma GetTasks_loop_scripted_returns:
  "GetTasks_loop a start ps \<lparr>server = scripted, state = rs, sent = xs\<rparr> \<noteq> None"
proof (induction rs arbitrary: a start ps xs)
  case Nil
  show ?case
    by (subst GetTasks_loop.simps)
       (simp add: session_get_def session_request_def scripted_def Let_def)
next
  case (Cons r rs)
  show ?case
    by (subst GetTasks_loop.simps)
       (simp add: session_get_def session_request_def scripted_def Let_def
          Cons.IH [simplified] split: reply.splits option.splits sum.splits)
qed

lemma GetTasks_scripted_returns:
  "GetTasks load (scripted_session rs) ps \<noteq> None"
proof -
  obtain y where "GetTasks_loop [] 0 ps \<lparr>server = scripted, state = rs, sent = []\<rparr> = Some y"
    using GetTasks_loop_scripted_returns [of "[]" 0 ps rs "[]"] by auto
  then show ?thesis
    by (cases y) (auto simp: GetTasks_def scripted_session_def split: sum.splits)
qed

lemma GetTasks_one_page:
  "GetTasks Inr (scripted_session [page_reply (JNum 0) []]) ps =
     Some (Inr [], ps(str ''start'' \<mapsto> Val (JNum 0), str ''num'' \<mapsto> Val (JNum 1000)),
           \<lparr>server = scripted, state = [], sent = [paged_request ps 0]\<rparr>)"
proof -
  have "GetTasks_loop [] 0 ps (scripted_session [page_reply (JNum 0) []]) =
     Some (Inr ([] @ []), ps(str ''start'' \<mapsto> Val (JNum (int 0)), str ''num'' \<mapsto> Val (JNum 1000)),
           (scripted_session [page_reply (JNum 0) []])
             \<lparr>state := [], sent := sent (scripted_session [page_reply (JNum 0) []]) @ [paged_request ps 0]\<rparr>)"
    by (subst GetTasks_loop_page [where m = "JNum 0" and p = "[]" and st' = "[]"])
       (simp_all add: scripted_session_def scripted_def)
  then show ?thesis
    by (simp add: GetTasks_def scripted_session_def)
qed

lemma start_num_distinct: "str ''start'' \<noteq> str ''num''"
  by (simp add: str_def)

text \<open>
  C10 (as stated): every request carries each key the caller supplied with its value,
  and the operation changes nothing in the caller's dict. The loop writes the offset and
  the limit into the caller's dict itself: an empty dict comes back with two entries, and
  a value the caller gave for \<^verbatim>\<open>num\<close> (or \<^verbatim>\<open>start\<close>) is overwritten before the first request.
\<close>

theorem GetTasks_params_counterexample:
  "GetTasks Inr (scripted_session [page_reply (JNum 0) []]) Map.empty =
     Some (Inr [], [str ''start'' \<mapsto> Val (JNum 0), str ''num'' \<mapsto> Val (JNum 1000)],
           \<lparr>server = scripted, state = [], sent = [paged_request Map.empty 0]\<rparr>) \<and>
   [str ''start'' \<mapsto> Val (JNum 0), str ''num'' \<mapsto> Val (JNum 1000)] \<noteq> Map.empty \<and>
   GetTasks Inr (scripted_session [page_reply (JNum 0) []]) [str ''num'' \<mapsto> Val (JNum 10)] =
     Some (Inr [], [str ''num'' \<mapsto> Val (JNum 10), str ''start'' \<mapsto> Val (JNum 0),
                    str ''num'' \<mapsto> Val (JNum 1000)],
           \<lparr>server = scripted, state = [],
            sent = [paged_request [str ''num'' \<mapsto> Val (JNum 10)] 0]\<rparr>) \<and>
   params (paged_request [str ''num'' \<mapsto> Val (JNum 10)] 0) (str ''num'') = Some (Val (JNum 1000)) \<and>
   [str ''num'' \<mapsto> Val (JNum 10)] (str ''num'') \<noteq> Some (Val (JNum 1000))"
proof -
  have "[str ''start'' \<mapsto> Val (JNum 0), str ''num'' \<mapsto> Val (JNum 1000)] (str ''num'') \<noteq> None"
    by simp
  then have ne: "[str ''start'' \<mapsto> Val (JNum 0), str ''num'' \<mapsto> Val (JNum 1000)] \<noteq> Map.empty"
    by (metis (no_types))
  have p: "params (paged_request [str ''num'' \<mapsto> Val (JNum 10)] 0) (str ''num'') = Some (Val (JNum 1000))"
    by (simp add: paged_request_def)
  have q: "[str ''num'' \<mapsto> Val (JNum 10)] (str ''num'') \<noteq> Some (Val (JNum 1000))"
    by simp
  from GetTasks_one_page [of Map.empty] GetTasks_one_page [of "[str ''num'' \<mapsto> Val (JNum 10)]"]
    ne p q
  show ?thesis by blast
qed

text \<open>
  C10 (amended): on a service that plays any finite script \<^verbatim>\<open>GetTasks\<close> returns. Whenever
  \<^verbatim>\<open>GetTasks\<close> returns, normally or by raising, it has issued one or more GET requests to
  the tasks endpoint, for the offsets 0, 1000, 2000, ...; each of them carries every key
  of the caller's dict other than \<^verbatim>\<open>start\<close> and \<^verbatim>\<open>num\<close> with the caller's value, \<^verbatim>\<open>start\<close>
  with the offset of the request and \<^verbatim>\<open>num\<close> with 1000. The caller's dict is changed in
  place: after the call it holds \<^verbatim>\<open>start\<close> with the offset of the last request and
  \<^verbatim>\<open>num\<close> with 1000, and every other key as before.
\<close>

theorem GetTasks_params_frame:
  "GetTasks load (scripted_session rs) ps \<noteq> None \<and>
   (GetTasks load sess ps = Some (r, ps', sess') \<longrightarrow>
      (\<exists>n. sent sess' = sent sess @ map (\<lambda>j. paged_request ps (1000 * j)) [0..<Suc n] \<and>
           ps' = ps(str ''start'' \<mapsto> Val (JNum (int (1000 * n))),
                    str ''num'' \<mapsto> Val (JNum 1000))) \<and>
      (\<forall>k. k \<noteq> str ''start'' \<longrightarrow> k \<noteq> str ''num'' \<longrightarrow> ps' k = ps k) \<and>
      ps' (str ''num'') = Some (Val (JNum 1000)) \<and>
      dom ps' = dom ps \<union> {str ''start'', str ''num''} \<and>
      (\<forall>req \<in> set (drop (length (sent sess)) (sent sess')).
         verb req = GET \<and> url req = getTasksUrl \<and>
         params req (str ''num'') = Some (Val (JNum 1000)) \<and>
         (\<exists>j. params req (str ''start'') = Some (Val (JNum (int (1000 * j))))) \<and>
         (\<forall>k. k \<noteq> str ''start'' \<longrightarrow> k \<noteq> str ''num'' \<longrightarrow> params req k = ps k)))"
proof (intro conjI impI)
  show "GetTasks load (scripted_session rs) ps \<noteq> None"
    by (rule GetTasks_scripted_returns)
next
  assume ret: "GetTasks load sess ps = Some (r, ps', sess')"
  then obtain y where y: "GetTasks_loop [] 0 ps sess = Some y"
      and py: "fst (snd y) = ps'" "snd (snd y) = sess'"
    by (auto simp: GetTasks_def split: option.splits sum.splits prod.splits)
  from GetTasks_loop_frame [OF y] py obtain n where
    p: "ps' = ps(str ''start'' \<mapsto> Val (JNum (int (1000 * n))), str ''num'' \<mapsto> Val (JNum 1000))"
    and q: "sent sess' = sent sess @ map (\<lambda>j. paged_request ps (1000 * j)) [0..<Suc n]"
    by auto
  from p q show "\<exists>n. sent sess' = sent sess @ map (\<lambda>j. paged_request ps (1000 * j)) [0..<Suc n] \<and>
           ps' = ps(str ''start'' \<mapsto> Val (JNum (int (1000 * n))),
                    str ''num'' \<mapsto> Val (JNum 1000))"
    by blast
  show "\<forall>k. k \<noteq> str ''start'' \<longrightarrow> k \<noteq> str ''num'' \<longrightarrow> ps' k = ps k"
    by (simp add: p)
  show "ps' (str ''num'') = Some (Val (JNum 1000))" by (simp add: p)
  show "dom ps' = dom ps \<union> {str ''start'', str ''num''}" by (auto simp: p)
  show "\<forall>req \<in> set (drop (length (sent sess)) (sent sess')).
         verb req = GET \<and> url req = getTasksUrl \<and>
         params req (str ''num'') = Some (Val (JNum 1000)) \<and>
         (\<exists>j. params req (str ''start'') = Some (Val (JNum (int (1000 * j))))) \<and>
         (\<forall>k. k \<noteq> str ''start'' \<longrightarrow> k \<noteq> str ''num'' \<longrightarrow> params req k = ps k)"
  proof
    fix req
    assume "req \<in> set (drop (length (sent sess)) (sent sess'))"
    with q obtain j where "req = paged_request ps (1000 * j)" by auto
    then show "verb req = GET \<and> url req = getTasksUrl \<and>
         params req (str ''num'') = Some (Val (JNum 1000)) \<and>
         (\<exists>j. params req (str ''start'') = Some (Val (JNum (int (1000 * j))))) \<and>
         (\<forall>k. k \<noteq> str ''start'' \<longrightarrow> k \<noteq> str ''num'' \<longrightarrow> params req k = ps k)"
      using start_num_distinct by (auto simp: paged_request_def)
  qed
qed

theorem GetTasks_params_frame_witness:
  "GetTasks Inr (scripted_session [page_reply (JNum 0) []]) [str ''comp'' \<mapsto> Val (JNum 1)] =
     Some (Inr [],
           [str ''comp'' \<mapsto> Val (JNum 1), str ''start'' \<mapsto> Val (JNum 0),
            str ''num'' \<mapsto> Val (JNum 1000)],
           \<lparr>server = scripted, state = [],
            sent = [paged_request [str ''comp'' \<mapsto> Val (JNum 1)] 0]\<rparr>) \<and>
   [str ''comp'' \<mapsto> Val (JNum 1), str ''start'' \<mapsto> Val (JNum 0),
    str ''num'' \<mapsto> Val (JNum 1000)] (str ''comp'') = Some (Val (JNum 1)) \<and>
   params (paged_request [str ''comp'' \<mapsto> Val (JNum 1)] 0) (str ''comp'') = Some (Val (JNum 1)) \<and>
   dom [str ''comp'' \<mapsto> Val (JNum 1), str ''start'' \<mapsto> Val (JNum 0),
        str ''num'' \<mapsto> Val (JNum 1000)] = {str ''comp'', str ''start'', str ''num''}"
proof -
  let ?ps = "[str ''comp'' \<mapsto> Val (JNum 1)]"
  let ?ps' = "[str ''comp'' \<mapsto> Val (JNum 1), str ''start'' \<mapsto> Val (JNum 0),
               str ''num'' \<mapsto> Val (JNum 1000)]"
  let ?s = "scripted_session [page_reply (JNum 0) []]"
  let ?s' = "\<lparr>server = scripted, state = [], sent = [paged_request ?ps 0]\<rparr> :: reply list session"
  have run: "GetTasks Inr ?s ?ps = Some (Inr [], ?ps', ?s')"
    by (rule GetTasks_one_page)
  have k: "str ''comp'' \<noteq> str ''start''" "str ''comp'' \<noteq> str ''num''"
    by (simp_all add: str_def)
  have s0: "sent ?s = []"
    by (simp add: scripted_session_def)
  note th = GetTasks_params_frame [where load = Inr and sess = ?s and ps = ?ps and r = "Inr []"
      and ps' = ?ps' and sess' = ?s' and rs = "[]"]
  from th run k have a: "?ps' (str ''comp'') = ?ps (str ''comp'')" by blast
  from th run have "\<forall>req \<in> set (drop (length (sent ?s)) (sent ?s')).
      \<forall>k. k \<noteq> str ''start'' \<longrightarrow> k \<noteq> str ''num'' \<longrightarrow> params req k = ?ps k" by blast
  with k have b: "params (paged_request ?ps 0) (str ''comp'') = ?ps (str ''comp'')"
    by (simp add: s0)
  from th run have c: "dom ?ps' = dom ?ps \<union> {str ''start'', str ''num''}" by blast
  from run a b c show ?thesis by auto
qed

section \<open>Properties of the service client\<close>

lemma discard_not_Returns: "discard r \<noteq> Some (Inr (Returns v), m, self')"
  by (auto simp: discard_def split: option.splits sum.splits prod.splits)

lemma GetAccount_scripted:
  "GetAccount load (scripted_session (Response 200 (Some j) # rs)) =
     (load j, \<lparr>server = scripted, state = rs, sent = [account_request]\<rparr>)"
  by (simp add: GetAccount_def session_get_def session_request_def scripted_session_def
      scripted_def raise_for_status_def response_json_def account_request_def)

lemma GetAccount_raises:
  "GetAccount load (scripted_session (Raises e # rs)) =
     (Inl e, \<lparr>server = scripted, state = rs, sent = [account_request]\<rparr>)"
  by (simp add: GetAccount_def session_get_def session_request_def scripted_session_def
      scripted_def account_request_def)

text \<open>
  C3: on success the client's \<^verbatim>\<open>GetAccount()\<close> returns the decoded account and its
  \<^verbatim>\<open>GetTasks(params)\<close> the decoded tasks. The module functions do return them, and
  \<^verbatim>\<open>ReauthorizeIfNecessary\<close> passes them on, but the two methods have no \<^verbatim>\<open>return\<close>
  statement: they return \<^verbatim>\<open>None\<close> on every successful call, and never a value.
\<close>

theorem client_reads_return_None:
  "Toodledo_GetAccount load self \<noteq> Some (Inr (Returns a), m, self') \<and>
   Toodledo_GetTasks load self ps \<noteq> Some (Inr (Returns ts), ps', self') \<and>
   GetAccount Inr (scripted_session [Response 200 (Some account_body)]) =
     (Inr account_body, \<lparr>server = scripted, state = [], sent = [account_request]\<rparr>) \<and>
   Toodledo_GetAccount Inr \<lparr>session = scripted_session [Response 200 (Some account_body)]\<rparr> =
     Some (Inr ReturnsNone, (),
           \<lparr>session = \<lparr>server = scripted, state = [], sent = [account_request]\<rparr>\<rparr>) \<and>
   GetTasks Inr (scripted_session [page_reply (JNum 1) [JObj [(str ''id'', JNum 7)]]]) Map.empty =
     Some (Inr [JObj [(str ''id'', JNum 7)]],
           [str ''start'' \<mapsto> Val (JNum 0), str ''num'' \<mapsto> Val (JNum 1000)],
           \<lparr>server = scripted, state = [], sent = [paged_request Map.empty 0]\<rparr>) \<and>
   Toodledo_GetTasks Inr
       \<lparr>session = scripted_session [page_reply (JNum 1) [JObj [(str ''id'', JNum 7)]]]\<rparr> Map.empty =
     Some (Inr ReturnsNone,
           [str ''start'' \<mapsto> Val (JNum 0), str ''num'' \<mapsto> Val (JNum 1000)],
           \<lparr>session = \<lparr>server = scripted, state = [], sent = [paged_request Map.empty 0]\<rparr>\<rparr>)"
proof -
  let ?t = "JObj [(str ''id'', JNum 7)]"
  have n1: "Toodledo_GetAccount load self \<noteq> Some (Inr (Returns a), m, self')"
    unfolding Toodledo_GetAccount_def by (rule discard_not_Returns)
  have n2: "Toodledo_GetTasks load self ps \<noteq> Some (Inr (Returns ts), ps', self')"
    unfolding Toodledo_GetTasks_def by (rule discard_not_Returns)
  have a1: "GetAccount Inr (scripted_session [Response 200 (Some account_body)]) =
     (Inr account_body, \<lparr>server = scripted, state = [], sent = [account_request]\<rparr>)"
    by (rule GetAccount_scripted)
  have a2: "Toodledo_GetAccount Inr \<lparr>session = scripted_session [Response 200 (Some account_body)]\<rparr> =
     Some (Inr ReturnsNone, (),
           \<lparr>session = \<lparr>server = scripted, state = [], sent = [account_request]\<rparr>\<rparr>)"
    by (simp add: Toodledo_GetAccount_def ReauthorizeIfNecessary_def discard_def a1)
  have "GetTasks_loop [] 0 Map.empty (scripted_session [page_reply (JNum 1) [?t]]) =
     Some (Inr ([] @ [?t]),
           [str ''start'' \<mapsto> Val (JNum (int 0)), str ''num'' \<mapsto> Val (JNum 1000)],
           (scripted_session [page_reply (JNum 1) [?t]])
             \<lparr>state := [], sent := sent (scripted_session [page_reply (JNum 1) [?t]]) @
                 [paged_request Map.empty 0]\<rparr>)"
    by (subst GetTasks_loop_page [where m = "JNum 1" and p = "[?t]" and st' = "[]"])
       (simp_all add: scripted_session_def scripted_def)
  then have g1: "GetTasks Inr (scripted_session [page_reply (JNum 1) [?t]]) Map.empty =
     Some (Inr [?t],
           [str ''start'' \<mapsto> Val (JNum 0), str ''num'' \<mapsto> Val (JNum 1000)],
           \<lparr>server = scripted, state = [], sent = [paged_request Map.empty 0]\<rparr>)"
    by (simp add: GetTasks_def scripted_session_def)
  have g2: "Toodledo_GetTasks Inr \<lparr>session = scripted_session [page_reply (JNum 1) [?t]]\<rparr> Map.empty =
     Some (Inr ReturnsNone,
           [str ''start'' \<mapsto> Val (JNum 0), str ''num'' \<mapsto> Val (JNum 1000)],
           \<lparr>session = \<lparr>server = scripted, state = [], sent = [paged_request Map.empty 0]\<rparr>\<rparr>)"
    by (simp add: Toodledo_GetTasks_def ReauthorizeIfNecessary_def discard_def g1)
  from n1 n2 a1 a2 g1 g2 show ?thesis by blast
qed

text \<open>
  C8: when the call fails because the access token is missing or expired, the client
  authorizes again and retries once. The \<^verbatim>\<open>except\<close> clause names \<^verbatim>\<open>TokenMissingError\<close>, which
  the module never imports: whatever the call raises, the client raises NameError, does
  not authorize and does not call again. With a service that refuses the first request
  for the missing token and would answer the second, \<^verbatim>\<open>GetAccount()\<close> issues one request
  and fails. The three write methods pass the keyword \<^verbatim>\<open>params\<close> to functions that have
  no such parameter, and so fail the same way before any request.
\<close>

theorem client_never_retries:
  "ReauthorizeIfNecessary self (\<lambda>sess. Some (Inl e, m, sess')) =
     Some (Inl (NameError ''TokenMissingError''), m, self\<lparr>session := sess'\<rparr>) \<and>
   Toodledo_GetAccount Inr
       \<lparr>session = scripted_session [Raises TokenMissingError, Response 200 (Some account_body)]\<rparr> =
     Some (Inl (NameError ''TokenMissingError''), (),
           \<lparr>session = \<lparr>server = scripted, state = [Response 200 (Some account_body)],
                        sent = [account_request]\<rparr>\<rparr>) \<and>
   Toodledo_EditTasks self taskList = Some (Inl (NameError ''TokenMissingError''), (), self) \<and>
   Toodledo_AddTasks self taskList = Some (Inl (NameError ''TokenMissingError''), (), self) \<and>
   Toodledo_DeleteTasks self taskList = Some (Inl (NameError ''TokenMissingError''), (), self)"
proof -
  have r: "ReauthorizeIfNecessary self (\<lambda>sess. Some (Inl e, m, sess')) =
     Some (Inl (NameError ''TokenMissingError''), m, self\<lparr>session := sess'\<rparr>)"
    by (simp add: ReauthorizeIfNecessary_def)
  have a: "Toodledo_GetAccount Inr
       \<lparr>session = scripted_session [Raises TokenMissingError, Response 200 (Some account_body)]\<rparr> =
     Some (Inl (NameError ''TokenMissingError''), (),
           \<lparr>session = \<lparr>server = scripted, state = [Response 200 (Some account_body)],
                        sent = [account_request]\<rparr>\<rparr>)"
    by (simp add: Toodledo_GetAccount_def ReauthorizeIfNecessary_def discard_def GetAccount_raises)
  have w: "Toodledo_EditTasks self taskList = Some (Inl (NameError ''TokenMissingError''), (), self)"
    "Toodledo_AddTasks self taskList = Some (Inl (NameError ''TokenMissingError''), (), self)"
    "Toodledo_DeleteTasks self taskList = Some (Inl (NameError ''TokenMissingError''), (), self)"
    by (simp_all add: Toodledo_EditTasks_def Toodledo_AddTasks_def Toodledo_DeleteTasks_def
        ReauthorizeIfNecessary_def discard_def)
  from r a w show ?thesis by blast
qed

end
